theory Spec2Isabelle
  imports Main "HOL-Library.Sublist"
begin

section \<open>Strings\<close>

text \<open>
  TypeScript strings are modelled as \<open>string\<close> (character lists), and the string-literal
  unions of the source (\<open>'confirmed' | 'conflicted' | 'no_data'\<close>, \<open>'success' | 'error' |
  'timeout'\<close>, the severities) as the strings they are at run time.

  \<open>toLowerCase\<close> maps the ASCII capitals to their small letters and leaves every other
  character alone; \<open>String.prototype.includes\<close> is the contiguous-substring test.
\<close>

definition toLowerChar :: "char \<Rightarrow> char" where
  "toLowerChar c =
     (case map_of (zip ''ABCDEFGHIJKLMNOPQRSTUVWXYZ'' ''abcdefghijklmnopqrstuvwxyz'') c of
        None \<Rightarrow> c
      | Some d \<Rightarrow> d)"

definition toLowerCase :: "string \<Rightarrow> string" where
  "toLowerCase s = map toLowerChar s"

definition str_includes :: "string \<Rightarrow> string \<Rightarrow> bool" where
  "str_includes s sub = sublist sub s"

text \<open>The JavaScript idiom \<open>s || d\<close> on a string: the empty string is falsy.\<close>

definition or_else :: "string \<Rightarrow> string \<Rightarrow> string" where
  "or_else s d = (if s = [] then d else s)"

section \<open>Event records (firebase.ts)\<close>

text \<open>
  \<open>createdAt\<close> is a Firestore \<open>Timestamp\<close>; \<open>parseTimestamp\<close> turns it into the instant
  it denotes, modelled as milliseconds since the epoch. Of \<open>IgnitionLog\<close> only the fields
  the health scorer reads are kept.
\<close>

record ExceptionLog =
  ex_id :: string
  ex_createdAt :: int
  ex_timestamp :: string
  ex_details :: string
  ex_deviceImei :: string
  ex_main :: string

record IgnitionLog =
  ig_id :: string
  ig_createdAt :: int

section \<open>Classifiers\<close>

text \<open>\<open>CorrelationService.isCriticalException\<close> (the correlator's gate).\<close>

definition isCriticalException :: "ExceptionLog \<Rightarrow> bool" where
  "isCriticalException exceptionLog =
     (let main = toLowerCase (or_else (ex_main exceptionLog) '''')
      in str_includes main ''server'' \<or>
         str_includes main ''critical'' \<or>
         str_includes main ''down'' \<or>
         str_includes main ''offline'')"

text \<open>
  \<open>AnalyticsService.getSeverityFromExceptionType\<close>; the argument is \<open>string | null\<close>,
  and \<open>!exceptionType\<close> holds for \<open>null\<close> and for the empty string.
\<close>

definition getSeverityFromExceptionType :: "string option \<Rightarrow> string" where
  "getSeverityFromExceptionType exceptionType =
     (case exceptionType of
        None \<Rightarrow> ''unknown''
      | Some t \<Rightarrow>
          if t = [] then ''unknown''
          else
            let type = toLowerCase t
            in if str_includes type ''critical'' \<or> str_includes type ''server down'' \<or>
                  str_includes type ''offline''
               then ''critical''
               else if str_includes type ''warning'' \<or> str_includes type ''degraded'' \<or>
                       str_includes type ''retry''
               then ''warning''
               else ''info'')"

section \<open>Health scorers\<close>

text \<open>
  \<open>calculateHealthScore\<close> of DeviceOverviewTab.tsx. \<open>now\<close> is the value of \<open>Date.now()\<close>.
  The source compares \<open>(now - lastIgnition) / (1000 * 60 * 60) < 24\<close>; the division by the
  positive constant is moved across the comparison.
\<close>

definition calculateHealthScore :: "int \<Rightarrow> ExceptionLog list \<Rightarrow> IgnitionLog list \<Rightarrow> int" where
  "calculateHealthScore now exceptionLogs ignitionLogs =
     (let score = 100;
          criticalExceptions = int (length (filter (\<lambda>log.
              let mainText = toLowerCase (or_else (ex_main log) '''')
              in mainText = ''server down'' \<or> str_includes mainText ''critical'') exceptionLogs));
          score = score - criticalExceptions * 20;
          warnings = int (length (filter (\<lambda>log.
              let mainText = toLowerCase (or_else (ex_main log) '''')
              in str_includes mainText ''retry'' \<or> str_includes mainText ''warning'') exceptionLogs));
          score = score - warnings * 5;
          oneHourAgo = now - 60 * 60 * 1000;
          recentExceptions = int (length (filter (\<lambda>log. ex_createdAt log > oneHourAgo) exceptionLogs));
          score = score - recentExceptions * 10;
          score = (case ignitionLogs of
                     [] \<Rightarrow> score
                   | l # _ \<Rightarrow>
                       if now - ig_createdAt l < 24 * (1000 * 60 * 60) then score + 5 else score)
      in max 0 (min 100 score))"

text \<open>
  \<open>CorrelationService.calculateHealthScore\<close>, the variant on API activity. It has the
  name of the function above in the source.
\<close>

definition calculateHealthScore_api :: "bool \<Rightarrow> int \<Rightarrow> int" where
  "calculateHealthScore_api isActive locationCount =
     (let score = 100;
          score = (if \<not> isActive then score - 50 else score);
          score = (if locationCount = 0 then score - 30
                   else if locationCount < 3 then score - 15
                   else score)
      in max 0 score)"

subsection \<open>The scorer's own counts, and the scorer as the specification words it\<close>

text \<open>
  The four quantities the function above computes from the logs before it combines them:
  its variables \<open>criticalExceptions\<close>, \<open>warnings\<close> and \<open>recentExceptions\<close>, and the
  condition of its ignition bonus.
\<close>

definition scorer_criticalExceptions :: "ExceptionLog list \<Rightarrow> int" where
  "scorer_criticalExceptions logs =
     int (length [l \<leftarrow> logs. toLowerCase (ex_main l) = ''server down'' \<or>
                              str_includes (toLowerCase (ex_main l)) ''critical''])"

definition scorer_warnings :: "ExceptionLog list \<Rightarrow> int" where
  "scorer_warnings logs =
     int (length [l \<leftarrow> logs. str_includes (toLowerCase (ex_main l)) ''retry'' \<or>
                              str_includes (toLowerCase (ex_main l)) ''warning''])"

definition recentExceptionCount :: "int \<Rightarrow> ExceptionLog list \<Rightarrow> int" where
  "recentExceptionCount now logs = int (length [l \<leftarrow> logs. now - 3600000 < ex_createdAt l])"

definition hasRecentIgnitionActivity :: "int \<Rightarrow> IgnitionLog list \<Rightarrow> bool" where
  "hasRecentIgnitionActivity now logs =
     (case logs of [] \<Rightarrow> False | l # _ \<Rightarrow> now - ig_createdAt l < 86400000)"

text \<open>
  The specification's side (its section 4.3), in its words: the formula of \<open>score\<close>; the
  classification of a category text by case-insensitive substring match, critical, server
  down or offline being critical, otherwise warning, retry or degraded being warning, and
  anything else info; and the numbers of critical-classified and of warning-classified
  exceptions.
\<close>

definition spec_score :: "int \<Rightarrow> int \<Rightarrow> int \<Rightarrow> bool \<Rightarrow> int" where
  "spec_score criticalCount warningCount recentCount hasRecentIgnition =
     max 0 (min 100 (100 - 20 * criticalCount - 5 * warningCount - 10 * recentCount
                      + (if hasRecentIgnition then 5 else 0)))"

definition spec_classify :: "string \<Rightarrow> string" where
  "spec_classify text =
     (if str_includes (toLowerCase text) ''critical'' \<or>
         str_includes (toLowerCase text) ''server down'' \<or>
         str_includes (toLowerCase text) ''offline''
      then ''critical''
      else if str_includes (toLowerCase text) ''warning'' \<or>
              str_includes (toLowerCase text) ''retry'' \<or>
              str_includes (toLowerCase text) ''degraded''
      then ''warning''
      else ''info'')"

definition spec_criticalExceptionCount :: "ExceptionLog list \<Rightarrow> int" where
  "spec_criticalExceptionCount logs =
     int (length [l \<leftarrow> logs. spec_classify (ex_main l) = ''critical''])"

definition spec_warningExceptionCount :: "ExceptionLog list \<Rightarrow> int" where
  "spec_warningExceptionCount logs =
     int (length [l \<leftarrow> logs. spec_classify (ex_main l) = ''warning''])"

section \<open>Numbers in strings\<close>

text \<open>
  Template literals print numbers in decimal. \<open>math_round_div n d\<close> is
  \<open>Math.round(n / d)\<close> for an integer \<open>n\<close> and a positive \<open>d\<close>: the nearest integer, a
  half rounded up.
\<close>

definition digit_char :: "nat \<Rightarrow> char" where
  "digit_char n = ''0123456789'' ! n"

function nat_to_string :: "nat \<Rightarrow> string" where
  "nat_to_string n =
     (if 10 \<le> n then nat_to_string (n div 10) else []) @ [digit_char (n mod 10)]"
  by pat_completeness auto
termination
  by (relation "measure (\<lambda>n. n)") auto

declare nat_to_string.simps [simp del]

definition number_to_string :: "int \<Rightarrow> string" where
  "number_to_string i =
     (if 0 \<le> i then nat_to_string (nat i) else CHR ''-'' # nat_to_string (nat (- i)))"

definition math_round_div :: "int \<Rightarrow> int \<Rightarrow> int" where
  "math_round_div n d = (2 * n + d) div (2 * d)"

fun join :: "string \<Rightarrow> string list \<Rightarrow> string" where
  "join sep [] = []"
| "join sep [x] = x"
| "join sep (x # y # ys) = x @ sep @ join sep (y # ys)"

section \<open>The registry API service (api.ts)\<close>

text \<open>
  A thrown JavaScript error: whether it is a \<open>TypeError\<close>, and its message. An \<open>async\<close>
  function returns a promise, which resolves (\<open>Inr\<close>) or rejects (\<open>Inl\<close>).
\<close>

record js_error =
  err_isTypeError :: bool
  err_message :: string

text \<open>
  What \<open>fetch\<close> does with one request: it rejects, or it answers with \<open>response.ok\<close>,
  the status, the status text, and the outcome of \<open>response.json()\<close>.
\<close>

datatype 'a fetch_outcome =
    FetchRejected js_error
  | FetchResponse bool nat string "js_error + 'a"

text \<open>
  \<open>Device\<close> and \<open>DeviceDetails\<close> with the fields the correlator reads (\<open>name\<close> and \<open>status\<close>
  are optional in the source), and \<open>LocationData\<close> without its coordinates.
\<close>

record Device =
  dev_id :: string
  dev_imei :: string
  dev_name :: "string option"
  dev_status :: "string option"

record LocationData =
  loc_id :: string
  loc_imei :: string
  loc_timestamp :: string

record ActivityStatus =
  as_isActive :: bool
  as_lastActivity :: "string option"
  as_locationCount :: int

record 'a cache_entry =
  ce_data :: 'a
  ce_timestamp :: int

text \<open>
  The service's state. The source keeps one \<open>Map\<close> from key strings to entries of any
  type; the keys \<open>all-devices\<close>, \<open>device-<imei>\<close> and \<open>locations-<imei>-<limit>\<close> of the
  three operations never coincide, so the map is split by the type of the cached value
  and keeps the source's key strings. \<open>requests\<close> lists the endpoints that \<open>makeRequest\<close>
  has sent to the external registry, oldest first.
\<close>

record APIService =
  cache_devices :: "string \<rightharpoonup> Device list cache_entry"
  cache_device :: "string \<rightharpoonup> Device option cache_entry"
  cache_locations :: "string \<rightharpoonup> LocationData list cache_entry"
  requests :: "string list"

text \<open>What \<open>supabase.from('device_inventory').select('imei')\<close> does.\<close>

datatype select_outcome =
    SelectThrows js_error
  | SelectError
  | SelectData "string list option"

text \<open>
  The world outside the program during one run of a handler: the clock (\<open>Date.now()\<close>,
  taken as constant over the run), the answers of the registry per endpoint, the instant a
  date string parses to (\<open>None\<close> for an invalid date), and the answer of the inventory
  store to the query for the known IMEIs.
\<close>

record env =
  env_now :: int
  fetch_devices :: "string \<Rightarrow> (bool \<times> Device list) fetch_outcome"
  fetch_device :: "string \<Rightarrow> Device option fetch_outcome"
  fetch_locations :: "string \<Rightarrow> LocationData list fetch_outcome"
  parseDate :: "string \<Rightarrow> int option"
  select_imeis :: select_outcome

definition CACHE_DURATION :: int where
  "CACHE_DURATION = 5 * 60 * 1000"

definition isCacheValid :: "int \<Rightarrow> (string \<rightharpoonup> 'a cache_entry) \<Rightarrow> string \<Rightarrow> bool" where
  "isCacheValid now cache key =
     (case cache key of
        None \<Rightarrow> False
      | Some cached \<Rightarrow> now - ce_timestamp cached < CACHE_DURATION)"

definition setCache ::
  "int \<Rightarrow> (string \<rightharpoonup> 'a cache_entry) \<Rightarrow> string \<Rightarrow> 'a \<Rightarrow> (string \<rightharpoonup> 'a cache_entry)" where
  "setCache now cache key d = cache(key \<mapsto> \<lparr>ce_data = d, ce_timestamp = now\<rparr>)"

text \<open>\<open>getCache\<close> returns \<open>cached?.data\<close>: \<open>None\<close> is \<open>undefined\<close>.\<close>

definition getCache :: "(string \<rightharpoonup> 'a cache_entry) \<Rightarrow> string \<Rightarrow> 'a option" where
  "getCache cache key = map_option ce_data (cache key)"

text \<open>
  The \<open>catch\<close> clause of \<open>makeRequest\<close>: a \<open>TypeError\<close> whose message contains
  \<open>Failed to fetch\<close> is replaced, every other error is thrown again.
\<close>

definition rethrow :: "js_error \<Rightarrow> js_error" where
  "rethrow error =
     (if err_isTypeError error \<and> str_includes (err_message error) ''Failed to fetch''
      then \<lparr>err_isTypeError = False,
             err_message = ''API request blocked by browser security (mixed content). The API server needs to support HTTPS.''\<rparr>
      else error)"

definition makeRequest ::
  "(string \<Rightarrow> 'a fetch_outcome) \<Rightarrow> string \<Rightarrow> APIService \<Rightarrow> (js_error + 'a) \<times> APIService" where
  "makeRequest fetch endpoint s =
     (let s' = s\<lparr>requests := requests s @ [endpoint]\<rparr>
      in case fetch endpoint of
           FetchRejected error \<Rightarrow> (Inl (rethrow error), s')
         | FetchResponse ok status statusText body \<Rightarrow>
             if \<not> ok
             then (Inl (rethrow \<lparr>err_isTypeError = False,
                      err_message = ''API request failed: '' @ nat_to_string status @ '' '' @ statusText\<rparr>), s')
             else (case body of
                     Inl error \<Rightarrow> (Inl (rethrow error), s')
                   | Inr d \<Rightarrow> (Inr d, s')))"

definition getAllDevices :: "env \<Rightarrow> APIService \<Rightarrow> (js_error + Device list) \<times> APIService" where
  "getAllDevices e s =
     (let cacheKey = ''all-devices''
      in if isCacheValid (env_now e) (cache_devices s) cacheKey
         then (Inr (case getCache (cache_devices s) cacheKey of None \<Rightarrow> [] | Some d \<Rightarrow> d), s)
         else (case makeRequest (fetch_devices e) ''/devices'' s of
                 (Inr (success, d), s') \<Rightarrow>
                   let devices = (if success then d else [])
                   in (Inr devices,
                       s'\<lparr>cache_devices := setCache (env_now e) (cache_devices s') cacheKey devices\<rparr>)
               | (Inl error, s') \<Rightarrow>
                   (Inr (case getCache (cache_devices s') cacheKey of
                           None \<Rightarrow> []
                         | Some cached \<Rightarrow> cached), s')))"

definition getDeviceByImei ::
  "env \<Rightarrow> string \<Rightarrow> APIService \<Rightarrow> (js_error + Device option) \<times> APIService" where
  "getDeviceByImei e imei s =
     (let cacheKey = ''device-'' @ imei
      in if isCacheValid (env_now e) (cache_device s) cacheKey
         then (Inr (case getCache (cache_device s) cacheKey of None \<Rightarrow> None | Some d \<Rightarrow> d), s)
         else (case makeRequest (fetch_device e) (''/devices/'' @ imei) s of
                 (Inr device, s') \<Rightarrow>
                   (Inr device,
                    s'\<lparr>cache_device := setCache (env_now e) (cache_device s') cacheKey device\<rparr>)
               | (Inl error, s') \<Rightarrow> (Inr None, s')))"

definition getDeviceLocations ::
  "env \<Rightarrow> string \<Rightarrow> int \<Rightarrow> APIService \<Rightarrow> (js_error + LocationData list) \<times> APIService" where
  "getDeviceLocations e imei limit s =
     (let cacheKey = ''locations-'' @ imei @ ''-'' @ number_to_string limit
      in if isCacheValid (env_now e) (cache_locations s) cacheKey
         then (Inr (case getCache (cache_locations s) cacheKey of None \<Rightarrow> [] | Some d \<Rightarrow> d), s)
         else (case makeRequest (fetch_locations e)
                      (''/devices/'' @ imei @ ''/locations?limit='' @ number_to_string limit) s of
                 (Inr locations, s') \<Rightarrow>
                   (Inr locations,
                    s'\<lparr>cache_locations := setCache (env_now e) (cache_locations s') cacheKey locations\<rparr>)
               | (Inl error, s') \<Rightarrow> (Inr [], s')))"

text \<open>
  \<open>isDeviceActive\<close>: the source compares \<open>(now - locationTime) / (1000 * 60) <=
  thresholdMinutes\<close>; an invalid date gives \<open>NaN\<close>, and the comparison is false.
\<close>

definition isDeviceActive :: "env \<Rightarrow> LocationData list \<Rightarrow> int \<Rightarrow> bool" where
  "isDeviceActive e locations thresholdMinutes =
     (case locations of
        [] \<Rightarrow> False
      | latestLocation # _ \<Rightarrow>
          if loc_timestamp latestLocation = [] then False
          else (case parseDate e (loc_timestamp latestLocation) of
                  None \<Rightarrow> False
                | Some locationTime \<Rightarrow>
                    env_now e - locationTime \<le> thresholdMinutes * (1000 * 60)))"

definition getDeviceActivityStatus ::
  "env \<Rightarrow> string \<Rightarrow> APIService \<Rightarrow> (js_error + ActivityStatus) \<times> APIService" where
  "getDeviceActivityStatus e imei s =
     (case getDeviceLocations e imei 5 s of
        (Inr locations, s') \<Rightarrow>
          (Inr \<lparr>as_isActive = isDeviceActive e locations 30,
                as_lastActivity = (case locations of [] \<Rightarrow> None | l # _ \<Rightarrow> Some (loc_timestamp l)),
                as_locationCount = int (length locations)\<rparr>, s')
      | (Inl error, s') \<Rightarrow>
          (Inr \<lparr>as_isActive = False, as_lastActivity = None, as_locationCount = 0\<rparr>, s'))"

section \<open>The correlation service (correlation.ts)\<close>

text \<open>
  The value of \<open>apiResponse\<close>: the object \<open>{device, activity}\<close>, the object \<open>{error}\<close>
  or the object \<open>{cached_status}\<close>; \<open>null\<close> is \<open>None\<close>.
\<close>

datatype api_response =
    ApiData "Device option" ActivityStatus
  | ApiError string
  | CachedStatus string

text \<open>The row \<open>logCorrelation\<close> inserts into \<open>api_correlation_logs\<close>.\<close>

record CorrelationLog =
  cl_imei :: string
  cl_correlation_type :: string
  cl_firebase_exception_id :: "string option"
  cl_api_response :: "api_response option"
  cl_api_status :: string
  cl_correlation_result :: string
  cl_notes :: string
  cl_created_at :: int

text \<open>
  The two partial rows the service upserts into \<open>device_inventory\<close>: the registry's data
  (\<open>updateDeviceInventory\<close>) and the event stream's data (\<open>updateDeviceWithFirebaseData\<close>).
  Instants stand for their ISO strings.
\<close>

record DeviceDataRow =
  dd_imei :: string
  dd_name :: "string option"
  dd_status :: string
  dd_last_seen_api :: "int option"
  dd_is_active_api :: bool
  dd_location_count :: int
  dd_health_score :: int
  dd_updated_at :: int

record FirebaseDataRow =
  fd_imei :: string
  fd_last_seen_firebase :: int
  fd_is_active_firebase :: bool
  fd_last_exception_type :: string
  fd_updated_at :: int

datatype inventory_upsert =
    DeviceData DeviceDataRow
  | FirebaseData FirebaseDataRow

text \<open>
  The state of the program: the fields of the \<open>CorrelationService\<close> singleton, the
  \<open>APIService\<close> singleton it calls, and the rows it has sent to the two tables of the
  record store, oldest first. A failed write is only printed to the console
  (\<open>logCorrelation\<close>, \<open>updateDeviceWithFirebaseData\<close> and \<open>updateDeviceInventory\<close> catch it),
  so the outcome of a write decides nothing in the program, and the model records the
  rows sent.
\<close>

record CorrelationService =
  knownIMEIs :: "string set"
  lastIMEIRefresh :: int
  apiService :: APIService
  api_correlation_logs :: "CorrelationLog list"
  device_inventory :: "inventory_upsert list"

definition IMEI_REFRESH_INTERVAL :: int where
  "IMEI_REFRESH_INTERVAL = 60 * 60 * 1000"

definition refreshKnownIMEIs :: "env \<Rightarrow> CorrelationService \<Rightarrow> CorrelationService" where
  "refreshKnownIMEIs e s =
     (let now = env_now e
      in if now - lastIMEIRefresh s < IMEI_REFRESH_INTERVAL then s
         else (case select_imeis e of
                 SelectThrows error \<Rightarrow> s
               | SelectError \<Rightarrow> s
               | SelectData d \<Rightarrow>
                   s\<lparr>knownIMEIs := (case d of None \<Rightarrow> {} | Some records \<Rightarrow> set records),
                     lastIMEIRefresh := now\<rparr>))"

definition isIMEIKnown :: "env \<Rightarrow> string \<Rightarrow> CorrelationService \<Rightarrow> bool \<times> CorrelationService" where
  "isIMEIKnown e imei s = (let s' = refreshKnownIMEIs e s in (imei \<in> knownIMEIs s', s'))"

text \<open>
  \<open>updateDeviceInventory\<close>. \<open>new Date(lastActivity).toISOString()\<close> throws a \<open>RangeError\<close>
  on an invalid date; the function's own \<open>catch\<close> takes it, and no row is sent.
\<close>

definition updateDeviceInventory :: "env \<Rightarrow> Device \<Rightarrow> CorrelationService \<Rightarrow> CorrelationService" where
  "updateDeviceInventory e device s =
     (case getDeviceActivityStatus e (dev_imei device) (apiService s) of
        (Inl error, a) \<Rightarrow> s\<lparr>apiService := a\<rparr>
      | (Inr activityStatus, a) \<Rightarrow>
          let s' = s\<lparr>apiService := a\<rparr>;
              healthScore = calculateHealthScore_api (as_isActive activityStatus)
                              (as_locationCount activityStatus);
              last_seen_api =
                (case as_lastActivity activityStatus of
                   None \<Rightarrow> Inr None
                 | Some ts \<Rightarrow>
                     if ts = [] then Inr None
                     else (case parseDate e ts of
                             None \<Rightarrow> Inl \<lparr>err_isTypeError = False, err_message = ''Invalid time value''\<rparr>
                           | Some t \<Rightarrow> Inr (Some t)))
          in case last_seen_api of
               Inl error \<Rightarrow> s'
             | Inr seen \<Rightarrow>
                 s'\<lparr>device_inventory := device_inventory s' @
                      [DeviceData \<lparr>dd_imei = dev_imei device,
                         dd_name = (case dev_name device of
                                      None \<Rightarrow> None
                                    | Some n \<Rightarrow> if n = [] then None else Some n),
                         dd_status = (case dev_status device of
                                        None \<Rightarrow> ''unknown''
                                      | Some st \<Rightarrow> or_else st ''unknown''),
                         dd_last_seen_api = seen,
                         dd_is_active_api = as_isActive activityStatus,
                         dd_location_count = as_locationCount activityStatus,
                         dd_health_score = healthScore,
                         dd_updated_at = env_now e\<rparr>]\<rparr>)"

definition determineCorrelationResult ::
  "ExceptionLog \<Rightarrow> Device option \<Rightarrow> ActivityStatus \<Rightarrow> string" where
  "determineCorrelationResult exceptionLog deviceDetails activityStatus =
     (case deviceDetails of
        None \<Rightarrow> ''no_data''
      | Some d \<Rightarrow>
          let exceptionType = toLowerCase (or_else (ex_main exceptionLog) '''')
          in if str_includes exceptionType ''server'' \<and> str_includes exceptionType ''down''
             then (if as_isActive activityStatus then ''conflicted'' else ''confirmed'')
             else if str_includes exceptionType ''device'' \<or> str_includes exceptionType ''connection''
             then (if \<not> as_isActive activityStatus then ''confirmed'' else ''conflicted'')
             else ''confirmed'')"

definition generateCorrelationNotes ::
  "env \<Rightarrow> ExceptionLog \<Rightarrow> Device option \<Rightarrow> ActivityStatus \<Rightarrow> string" where
  "generateCorrelationNotes e exceptionLog deviceDetails activityStatus =
     (let notes = [''Firebase Exception: '' @ or_else (ex_main exceptionLog) ''Unknown''];
          notes =
            (case deviceDetails of
               Some d \<Rightarrow>
                 notes @
                 [''API Device Status: '' @
                    (case dev_status d of None \<Rightarrow> ''Unknown'' | Some st \<Rightarrow> or_else st ''Unknown''),
                  ''API Activity: '' @ (if as_isActive activityStatus then ''Active'' else ''Inactive''),
                  ''Recent Locations: '' @ number_to_string (as_locationCount activityStatus)] @
                 (case as_lastActivity activityStatus of
                    None \<Rightarrow> []
                  | Some ts \<Rightarrow>
                      if ts = [] then []
                      else [''Last Activity: '' @
                            (case parseDate e ts of
                               None \<Rightarrow> ''NaN''
                             | Some lastActivity \<Rightarrow>
                                 number_to_string (math_round_div (env_now e - lastActivity) (1000 * 60))) @
                            '' minutes ago''])
             | None \<Rightarrow> notes @ [''API: Device not found or API unavailable''])
      in join '' | '' notes)"

definition updateDeviceWithFirebaseData ::
  "env \<Rightarrow> string \<Rightarrow> ExceptionLog \<Rightarrow> CorrelationService \<Rightarrow> CorrelationService" where
  "updateDeviceWithFirebaseData e imei exceptionLog s =
     s\<lparr>device_inventory := device_inventory s @
          [FirebaseData \<lparr>fd_imei = imei,
             fd_last_seen_firebase = env_now e,
             fd_is_active_firebase = False,
             fd_last_exception_type = or_else (ex_main exceptionLog) ''Unknown'',
             fd_updated_at = env_now e\<rparr>]\<rparr>"

text \<open>
  \<open>logCorrelation\<close> takes the row without \<open>created_at\<close> and adds it; the model passes the
  fields.
\<close>

definition logCorrelation ::
  "env \<Rightarrow> string \<Rightarrow> string \<Rightarrow> string option \<Rightarrow> api_response option \<Rightarrow> string \<Rightarrow> string \<Rightarrow>
   string \<Rightarrow> CorrelationService \<Rightarrow> CorrelationService" where
  "logCorrelation e imei correlation_type firebase_exception_id api_response api_status
     correlation_result notes s =
     s\<lparr>api_correlation_logs := api_correlation_logs s @
          [\<lparr>cl_imei = imei,
            cl_correlation_type = correlation_type,
            cl_firebase_exception_id = firebase_exception_id,
            cl_api_response = api_response,
            cl_api_status = api_status,
            cl_correlation_result = correlation_result,
            cl_notes = notes,
            cl_created_at = env_now e\<rparr>]\<rparr>"

text \<open>
  The expression \<open>apiResponse?.error ? 'error' : (apiResponse ? 'success' : 'no_data')\<close>;
  an empty error message is falsy.
\<close>

definition api_status_of :: "api_response option \<Rightarrow> string" where
  "api_status_of apiResponse =
     (case apiResponse of
        None \<Rightarrow> ''no_data''
      | Some (ApiError m) \<Rightarrow> if m \<noteq> [] then ''error'' else ''success''
      | Some _ \<Rightarrow> ''success'')"

text \<open>
  The branch of \<open>correlateExceptionEventDriven\<close> for an IMEI that is not known
  (lines 125 to 149), with its \<open>try\<close> and \<open>catch\<close>. It returns \<open>apiResponse\<close>,
  \<open>correlationResult\<close>, \<open>notes\<close> and the state.
\<close>

definition correlate_new_imei ::
  "env \<Rightarrow> ExceptionLog \<Rightarrow> CorrelationService \<Rightarrow>
   api_response option \<times> string \<times> string \<times> CorrelationService" where
  "correlate_new_imei e exceptionLog s =
     (let imei = ex_deviceImei exceptionLog;
          catch = (\<lambda>error s.
             (Some (ApiError (err_message error)), ''no_data'',
              ''New IMEI discovered - API call failed: '' @ err_message error, s))
      in case getDeviceByImei e imei (apiService s) of
           (Inl error, a) \<Rightarrow> catch error (s\<lparr>apiService := a\<rparr>)
         | (Inr deviceDetails, a) \<Rightarrow>
             (case getDeviceActivityStatus e imei a of
                (Inl error, a') \<Rightarrow> catch error (s\<lparr>apiService := a'\<rparr>)
              | (Inr activityStatus, a') \<Rightarrow>
                  let s' = s\<lparr>apiService := a'\<rparr>;
                      apiResponse = Some (ApiData deviceDetails activityStatus);
                      correlationResult =
                        (if deviceDetails \<noteq> None then ''confirmed'' else ''no_data'');
                      notes =
                        (if deviceDetails \<noteq> None
                         then ''New IMEI discovered - device found in API and added to inventory''
                         else ''New IMEI discovered - device not found in API'');
                      s'' = (case deviceDetails of
                               None \<Rightarrow> s'
                             | Some d \<Rightarrow>
                                 let u = updateDeviceInventory e d s'
                                 in u\<lparr>knownIMEIs := insert imei (knownIMEIs u)\<rparr>)
                  in (apiResponse, correlationResult, notes, s'')))"

text \<open>The branch for a critical exception of a known IMEI (lines 155 to 170).\<close>

definition correlate_known_critical ::
  "env \<Rightarrow> ExceptionLog \<Rightarrow> CorrelationService \<Rightarrow>
   api_response option \<times> string \<times> string \<times> CorrelationService" where
  "correlate_known_critical e exceptionLog s =
     (let imei = ex_deviceImei exceptionLog;
          catch = (\<lambda>error s.
             (Some (ApiError (err_message error)), ''no_data'',
              ''Critical exception for known IMEI - API call failed: '' @ err_message error, s))
      in case getDeviceByImei e imei (apiService s) of
           (Inl error, a) \<Rightarrow> catch error (s\<lparr>apiService := a\<rparr>)
         | (Inr deviceDetails, a) \<Rightarrow>
             (case getDeviceActivityStatus e imei a of
                (Inl error, a') \<Rightarrow> catch error (s\<lparr>apiService := a'\<rparr>)
              | (Inr activityStatus, a') \<Rightarrow>
                  (Some (ApiData deviceDetails activityStatus),
                   determineCorrelationResult exceptionLog deviceDetails activityStatus,
                   generateCorrelationNotes e exceptionLog deviceDetails activityStatus,
                   s\<lparr>apiService := a'\<rparr>)))"

text \<open>
  \<open>correlateExceptionEventDriven\<close>. Everything the outer \<open>try\<close> awaits or calls returns
  normally (each callee catches its own errors, and \<open>main\<close> is a string by the type of
  \<open>ExceptionLog\<close>), so the outer \<open>catch\<close> of lines 194 to 207 has nothing to take.
\<close>

definition correlateExceptionEventDriven ::
  "env \<Rightarrow> ExceptionLog \<Rightarrow> CorrelationService \<Rightarrow> CorrelationService" where
  "correlateExceptionEventDriven e exceptionLog s =
     (if ex_deviceImei exceptionLog = [] then s
      else
        let imei = ex_deviceImei exceptionLog;
            (isKnown, s1) = isIMEIKnown e imei s;
            (apiResponse, correlationResult, notes, s2) =
              (if \<not> isKnown then correlate_new_imei e exceptionLog s1
               else if isCriticalException exceptionLog
               then correlate_known_critical e exceptionLog s1
               else (Some (CachedStatus ''known_imei_non_critical''), ''confirmed'',
                     ''Non-critical exception for known IMEI - no API call made (event-driven optimization)'',
                     s1));
            s3 = logCorrelation e imei ''exception_triggered'' (Some (ex_id exceptionLog))
                   apiResponse (api_status_of apiResponse) correlationResult notes s2
        in updateDeviceWithFirebaseData e imei exceptionLog s3)"

section \<open>The exception-log subscription (firebase.ts)\<close>

text \<open>
  One document of a query snapshot: its id, its data, and the two metadata flags the
  handler reads.
\<close>

record DocumentData =
  data_createdAt :: int
  data_timestamp :: string
  data_details :: string
  data_deviceImei :: string
  data_main :: string

record QueryDocumentSnapshot =
  doc_id :: string
  doc_data :: DocumentData
  doc_hasPendingWrites :: bool
  doc_fromCache :: bool

definition logData :: "QueryDocumentSnapshot \<Rightarrow> ExceptionLog" where
  "logData doc =
     \<lparr>ex_id = doc_id doc,
      ex_createdAt = data_createdAt (doc_data doc),
      ex_timestamp = data_timestamp (doc_data doc),
      ex_details = data_details (doc_data doc),
      ex_deviceImei = data_deviceImei (doc_data doc),
      ex_main = data_main (doc_data doc)\<rparr>"

text \<open>
  The snapshot listener of \<open>subscribeToExceptionLogs\<close>. It collects \<open>logs\<close> and \<open>newLogs\<close>
  from the documents of the snapshot, calls \<open>correlateExceptionEventDriven\<close> for each of
  \<open>newLogs\<close> in order without awaiting it, and passes \<open>logs\<close> to the callback. The listener
  keeps nothing from one snapshot to the next. Its effects are the list handed to the
  callback and the list of events for which it starts a correlation; the started
  correlations run on their own, each as \<open>correlateExceptionEventDriven\<close> describes.
\<close>

record SnapshotEffects =
  to_callback :: "ExceptionLog list"
  correlations_started :: "ExceptionLog list"

definition onExceptionSnapshot :: "QueryDocumentSnapshot list \<Rightarrow> SnapshotEffects" where
  "onExceptionSnapshot snapshot =
     (let logs = map logData snapshot;
          newLogs = map logData
            (filter (\<lambda>doc. \<not> doc_hasPendingWrites doc \<and> doc_fromCache doc = False) snapshot)
      in \<lparr>to_callback = logs, correlations_started = newLogs\<rparr>)"

section \<open>Scenarios\<close>

text \<open>
  Concrete inputs for the properties below: a device of the registry, one of its
  location samples, a registry that answers, a registry whose every request times out,
  and events of device 867.
\<close>

definition truck :: Device where
  "truck = \<lparr>dev_id = ''d1'', dev_imei = ''867'', dev_name = Some ''Truck 7'',
             dev_status = Some ''active''\<rparr>"

definition sample :: LocationData where
  "sample = \<lparr>loc_id = ''l1'', loc_imei = ''867'', loc_timestamp = ''1970-01-01T02:46:30.000Z''\<rparr>"

definition registry_up :: env where
  "registry_up =
     \<lparr>env_now = 10000000,
      fetch_devices = (\<lambda>endpoint. FetchResponse True 200 ''OK'' (Inr (True, [truck]))),
      fetch_device = (\<lambda>endpoint.
         if endpoint = ''/devices/867'' then FetchResponse True 200 ''OK'' (Inr (Some truck))
         else FetchResponse False 404 ''Not Found'' (Inr None)),
      fetch_locations = (\<lambda>endpoint. FetchResponse True 200 ''OK'' (Inr [sample])),
      parseDate = (\<lambda>s. if s = ''1970-01-01T02:46:30.000Z'' then Some 9990000 else None),
      select_imeis = SelectData (Some [])\<rparr>"

definition registry_down :: env where
  "registry_down =
     \<lparr>env_now = 10000000,
      fetch_devices = (\<lambda>endpoint.
         FetchRejected \<lparr>err_isTypeError = False, err_message = ''The operation timed out''\<rparr>),
      fetch_device = (\<lambda>endpoint.
         FetchRejected \<lparr>err_isTypeError = False, err_message = ''The operation timed out''\<rparr>),
      fetch_locations = (\<lambda>endpoint.
         FetchRejected \<lparr>err_isTypeError = False, err_message = ''The operation timed out''\<rparr>),
      parseDate = (\<lambda>s. if s = ''1970-01-01T02:46:30.000Z'' then Some 9990000 else None),
      select_imeis = SelectData (Some [])\<rparr>"

definition api_cold :: APIService where
  "api_cold = \<lparr>cache_devices = Map.empty, cache_device = Map.empty,
                cache_locations = Map.empty, requests = []\<rparr>"

text \<open>Caches filled at time 0, which is more than five minutes before 10000000.\<close>

definition api_stale :: APIService where
  "api_stale =
     \<lparr>cache_devices = [''all-devices'' \<mapsto> \<lparr>ce_data = [truck], ce_timestamp = 0\<rparr>],
      cache_device = [''device-867'' \<mapsto> \<lparr>ce_data = Some truck, ce_timestamp = 0\<rparr>],
      cache_locations = [''locations-867-5'' \<mapsto> \<lparr>ce_data = [sample], ce_timestamp = 0\<rparr>],
      requests = []\<rparr>"

text \<open>
  A correlation service that refreshed its known IMEIs a second before 10000000 and has
  sent nothing yet.
\<close>

definition service :: "string set \<Rightarrow> CorrelationService" where
  "service known =
     \<lparr>knownIMEIs = known, lastIMEIRefresh = 9999000, apiService = api_cold,
      api_correlation_logs = [], device_inventory = []\<rparr>"

definition event :: "string \<Rightarrow> string \<Rightarrow> ExceptionLog" where
  "event i m = \<lparr>ex_id = i, ex_createdAt = 9999500, ex_timestamp = '''', ex_details = '''',
                 ex_deviceImei = ''867'', ex_main = m\<rparr>"

definition document :: "string \<Rightarrow> string \<Rightarrow> QueryDocumentSnapshot" where
  "document i m =
     \<lparr>doc_id = i,
      doc_data = \<lparr>data_createdAt = 9999500, data_timestamp = '''', data_details = '''',
                   data_deviceImei = ''867'', data_main = m\<rparr>,
      doc_hasPendingWrites = False, doc_fromCache = False\<rparr>"

section \<open>Evaluation rules\<close>

lemma str_includes_Nil [simp]: "str_includes s []"
  by (simp add: str_includes_def)

lemma str_includes_empty [simp]: "str_includes [] (c # cs) = False"
  by (simp add: str_includes_def)

lemma str_includes_Cons [simp]:
  "str_includes (y # ys) (c # cs) = (prefix (c # cs) (y # ys) \<or> str_includes ys (c # cs))"
  by (simp add: str_includes_def sublist_Cons_right)

lemma str_includes_trans:
  "str_includes s b \<Longrightarrow> str_includes b a \<Longrightarrow> str_includes s a"
  unfolding str_includes_def by (rule sublist_order.order_trans)

lemma or_else_empty [simp]: "or_else s [] = s"
  by (simp add: or_else_def)

section \<open>Health score properties\<close>

lemma count_le_count:
  assumes "\<And>x. x \<in> set xs \<Longrightarrow> P x \<Longrightarrow> Q x"
  shows "int (length (filter P xs)) \<le> int (length (filter Q xs))"
  using assms by (induction xs) auto

lemma count_cong:
  assumes "\<And>x. x \<in> set xs \<Longrightarrow> P x = Q x"
  shows "int (length (filter P xs)) = int (length (filter Q xs))"
  using assms by (induction xs) auto

lemma calculateHealthScore_unfolded:
  "calculateHealthScore now exceptionLogs ignitionLogs =
     spec_score (scorer_criticalExceptions exceptionLogs) (scorer_warnings exceptionLogs)
       (recentExceptionCount now exceptionLogs) (hasRecentIgnitionActivity now ignitionLogs)"
  by (cases ignitionLogs)
     (simp_all add: calculateHealthScore_def spec_score_def scorer_criticalExceptions_def
        scorer_warnings_def recentExceptionCount_def hasRecentIgnitionActivity_def Let_def
        mult.commute)

text \<open>
  C5 as stated fails: the scorer does not count the critical-classified and the
  warning-classified exceptions of the specification's table. One exception \<open>Device
  offline\<close>, two hours old, is critical-classified, so the formula gives 100 - 20 = 80;
  the scorer counts as critical only a text that is exactly \<open>server down\<close> or contains
  \<open>critical\<close>, and returns 100.
\<close>

theorem calculateHealthScore_counts_counterexample:
  "spec_classify ''Device offline'' = ''critical''
   \<and> spec_score
        (spec_criticalExceptionCount
           [\<lparr>ex_id = ''e1'', ex_createdAt = 92800000, ex_timestamp = '''', ex_details = '''',
              ex_deviceImei = ''867'', ex_main = ''Device offline''\<rparr>])
        (spec_warningExceptionCount
           [\<lparr>ex_id = ''e1'', ex_createdAt = 92800000, ex_timestamp = '''', ex_details = '''',
              ex_deviceImei = ''867'', ex_main = ''Device offline''\<rparr>])
        (recentExceptionCount 100000000
           [\<lparr>ex_id = ''e1'', ex_createdAt = 92800000, ex_timestamp = '''', ex_details = '''',
              ex_deviceImei = ''867'', ex_main = ''Device offline''\<rparr>])
        (hasRecentIgnitionActivity 100000000 []) = 80
   \<and> calculateHealthScore 100000000
        [\<lparr>ex_id = ''e1'', ex_createdAt = 92800000, ex_timestamp = '''', ex_details = '''',
           ex_deviceImei = ''867'', ex_main = ''Device offline''\<rparr>] [] = 100"
  by (simp add: spec_classify_def spec_score_def spec_criticalExceptionCount_def
        spec_warningExceptionCount_def recentExceptionCount_def hasRecentIgnitionActivity_def
        calculateHealthScore_def toLowerCase_def toLowerChar_def Let_def)

text \<open>
  C5 (amended): the primary health scorer is a pure function of four quantities it takes
  from its inputs, equal to 100 - 20 * critical - 5 * warning - 10 * recent, plus 5 when
  the first ignition log of its input (the latest, the subscription ordering them newest
  first) is less than 24 hours old, clamped to [0, 100], where
  critical is the number of exceptions whose lower-cased category is exactly
  \<open>server down\<close> or contains \<open>critical\<close>, warning the number of those whose category
  contains \<open>retry\<close> or \<open>warning\<close>, and recent the number of those less than an hour old;
  in particular score(2, 1, 1, true) = 50. Every exception the scorer counts as critical
  is critical-classified by the specification's table, and where the scorer's two tests
  agree with the table on every exception of the input, the score is the specification's
  formula on the numbers of critical-classified and warning-classified exceptions.
\<close>

theorem calculateHealthScore_formula:
  "calculateHealthScore now exceptionLogs ignitionLogs =
     spec_score (scorer_criticalExceptions exceptionLogs) (scorer_warnings exceptionLogs)
       (recentExceptionCount now exceptionLogs) (hasRecentIgnitionActivity now ignitionLogs)
   \<and> spec_score 2 1 1 True = 50
   \<and> scorer_criticalExceptions exceptionLogs \<le> spec_criticalExceptionCount exceptionLogs
   \<and> ((\<forall>l \<in> set exceptionLogs.
          ((toLowerCase (ex_main l) = ''server down'' \<or>
            str_includes (toLowerCase (ex_main l)) ''critical'') =
           (spec_classify (ex_main l) = ''critical''))
          \<and> ((str_includes (toLowerCase (ex_main l)) ''retry'' \<or>
               str_includes (toLowerCase (ex_main l)) ''warning'') =
              (spec_classify (ex_main l) = ''warning''))) \<longrightarrow>
        calculateHealthScore now exceptionLogs ignitionLogs =
          spec_score (spec_criticalExceptionCount exceptionLogs)
            (spec_warningExceptionCount exceptionLogs)
            (recentExceptionCount now exceptionLogs)
            (hasRecentIgnitionActivity now ignitionLogs))"
proof (intro conjI impI)
  show "calculateHealthScore now exceptionLogs ignitionLogs =
     spec_score (scorer_criticalExceptions exceptionLogs) (scorer_warnings exceptionLogs)
       (recentExceptionCount now exceptionLogs) (hasRecentIgnitionActivity now ignitionLogs)"
    by (rule calculateHealthScore_unfolded)
  show "spec_score 2 1 1 True = 50"
    by (simp add: spec_score_def)
  show "scorer_criticalExceptions exceptionLogs \<le> spec_criticalExceptionCount exceptionLogs"
    unfolding scorer_criticalExceptions_def spec_criticalExceptionCount_def
  proof (rule count_le_count)
    fix l
    assume "toLowerCase (ex_main l) = ''server down'' \<or>
            str_includes (toLowerCase (ex_main l)) ''critical''"
    moreover have "str_includes t ''server down''" if "t = ''server down''" for t
      using that by simp
    ultimately show "spec_classify (ex_main l) = ''critical''"
      by (auto simp add: spec_classify_def)
  qed
  assume agree: "\<forall>l \<in> set exceptionLogs.
          ((toLowerCase (ex_main l) = ''server down'' \<or>
            str_includes (toLowerCase (ex_main l)) ''critical'') =
           (spec_classify (ex_main l) = ''critical''))
          \<and> ((str_includes (toLowerCase (ex_main l)) ''retry'' \<or>
               str_includes (toLowerCase (ex_main l)) ''warning'') =
              (spec_classify (ex_main l) = ''warning''))"
  have "scorer_criticalExceptions exceptionLogs = spec_criticalExceptionCount exceptionLogs"
    unfolding scorer_criticalExceptions_def spec_criticalExceptionCount_def
    by (rule count_cong) (use agree in blast)
  moreover have "scorer_warnings exceptionLogs = spec_warningExceptionCount exceptionLogs"
    unfolding scorer_warnings_def spec_warningExceptionCount_def
    by (rule count_cong) (use agree in blast)
  ultimately show "calculateHealthScore now exceptionLogs ignitionLogs =
          spec_score (spec_criticalExceptionCount exceptionLogs)
            (spec_warningExceptionCount exceptionLogs)
            (recentExceptionCount now exceptionLogs)
            (hasRecentIgnitionActivity now ignitionLogs)"
    by (simp add: calculateHealthScore_unfolded)
qed

theorem calculateHealthScore_formula_witness:
  "spec_criticalExceptionCount
     [\<lparr>ex_id = ''e1'', ex_createdAt = 99000000, ex_timestamp = '''', ex_details = '''',
        ex_deviceImei = ''867'', ex_main = ''Server Down''\<rparr>,
      \<lparr>ex_id = ''e2'', ex_createdAt = 90000000, ex_timestamp = '''', ex_details = '''',
        ex_deviceImei = ''867'', ex_main = ''CRITICAL: battery''\<rparr>,
      \<lparr>ex_id = ''e3'', ex_createdAt = 90000000, ex_timestamp = '''', ex_details = '''',
        ex_deviceImei = ''867'', ex_main = ''GPS retry''\<rparr>] = 2
   \<and> spec_warningExceptionCount
     [\<lparr>ex_id = ''e1'', ex_createdAt = 99000000, ex_timestamp = '''', ex_details = '''',
        ex_deviceImei = ''867'', ex_main = ''Server Down''\<rparr>,
      \<lparr>ex_id = ''e2'', ex_createdAt = 90000000, ex_timestamp = '''', ex_details = '''',
        ex_deviceImei = ''867'', ex_main = ''CRITICAL: battery''\<rparr>,
      \<lparr>ex_id = ''e3'', ex_createdAt = 90000000, ex_timestamp = '''', ex_details = '''',
        ex_deviceImei = ''867'', ex_main = ''GPS retry''\<rparr>] = 1
   \<and> calculateHealthScore 100000000
     [\<lparr>ex_id = ''e1'', ex_createdAt = 99000000, ex_timestamp = '''', ex_details = '''',
        ex_deviceImei = ''867'', ex_main = ''Server Down''\<rparr>,
      \<lparr>ex_id = ''e2'', ex_createdAt = 90000000, ex_timestamp = '''', ex_details = '''',
        ex_deviceImei = ''867'', ex_main = ''CRITICAL: battery''\<rparr>,
      \<lparr>ex_id = ''e3'', ex_createdAt = 90000000, ex_timestamp = '''', ex_details = '''',
        ex_deviceImei = ''867'', ex_main = ''GPS retry''\<rparr>]
     [\<lparr>ig_id = ''i1'', ig_createdAt = 89200000\<rparr>] = 50"
proof -
  let ?logs = "[\<lparr>ex_id = ''e1'', ex_createdAt = 99000000, ex_timestamp = '''', ex_details = '''',
        ex_deviceImei = ''867'', ex_main = ''Server Down''\<rparr>,
      \<lparr>ex_id = ''e2'', ex_createdAt = 90000000, ex_timestamp = '''', ex_details = '''',
        ex_deviceImei = ''867'', ex_main = ''CRITICAL: battery''\<rparr>,
      \<lparr>ex_id = ''e3'', ex_createdAt = 90000000, ex_timestamp = '''', ex_details = '''',
        ex_deviceImei = ''867'', ex_main = ''GPS retry''\<rparr>]"
  have agree: "\<forall>l \<in> set ?logs.
          ((toLowerCase (ex_main l) = ''server down'' \<or>
            str_includes (toLowerCase (ex_main l)) ''critical'') =
           (spec_classify (ex_main l) = ''critical''))
          \<and> ((str_includes (toLowerCase (ex_main l)) ''retry'' \<or>
               str_includes (toLowerCase (ex_main l)) ''warning'') =
              (spec_classify (ex_main l) = ''warning''))"
    by (simp add: spec_classify_def toLowerCase_def toLowerChar_def)
  have counts: "spec_criticalExceptionCount ?logs = 2" "spec_warningExceptionCount ?logs = 1"
      "recentExceptionCount 100000000 ?logs = 1"
      "hasRecentIgnitionActivity 100000000 [\<lparr>ig_id = ''i1'', ig_createdAt = 89200000\<rparr>]"
    by (simp_all add: spec_criticalExceptionCount_def spec_warningExceptionCount_def
          recentExceptionCount_def hasRecentIgnitionActivity_def spec_classify_def
          toLowerCase_def toLowerChar_def)
  from calculateHealthScore_formula
    [of 100000000 ?logs "[\<lparr>ig_id = ''i1'', ig_createdAt = 89200000\<rparr>]"] agree
  have "calculateHealthScore 100000000 ?logs [\<lparr>ig_id = ''i1'', ig_createdAt = 89200000\<rparr>] =
      spec_score (spec_criticalExceptionCount ?logs) (spec_warningExceptionCount ?logs)
        (recentExceptionCount 100000000 ?logs)
        (hasRecentIgnitionActivity 100000000 [\<lparr>ig_id = ''i1'', ig_createdAt = 89200000\<rparr>])"
    by blast
  with counts show ?thesis
    by (simp add: spec_score_def)
qed

text \<open>
  A concrete run of the source function for C5: two critical exceptions, one warning, one
  of the three less than an hour old, and an ignition event three hours ago.
\<close>

lemma calculateHealthScore_scenario:
  "calculateHealthScore 100000000
     [\<lparr>ex_id = ''e1'', ex_createdAt = 99000000, ex_timestamp = '''', ex_details = '''',
        ex_deviceImei = ''867'', ex_main = ''Server Down''\<rparr>,
      \<lparr>ex_id = ''e2'', ex_createdAt = 90000000, ex_timestamp = '''', ex_details = '''',
        ex_deviceImei = ''867'', ex_main = ''CRITICAL: battery''\<rparr>,
      \<lparr>ex_id = ''e3'', ex_createdAt = 90000000, ex_timestamp = '''', ex_details = '''',
        ex_deviceImei = ''867'', ex_main = ''GPS retry''\<rparr>]
     [\<lparr>ig_id = ''i1'', ig_createdAt = 89200000\<rparr>] = 50"
  by (simp add: calculateHealthScore_def toLowerCase_def toLowerChar_def Let_def)

text \<open>
  C6: for every input, both health-scorer variants (the exception/ignition variant and
  the API-activity variant) return a value within [0, 100].
\<close>

theorem health_scores_within_0_100:
  "0 \<le> calculateHealthScore now exceptionLogs ignitionLogs
   \<and> calculateHealthScore now exceptionLogs ignitionLogs \<le> 100
   \<and> 0 \<le> calculateHealthScore_api isActive locationCount
   \<and> calculateHealthScore_api isActive locationCount \<le> 100"
  by (simp add: calculateHealthScore_def calculateHealthScore_api_def Let_def)

text \<open>
  C10: the API-activity variant never returns a value below 20, for every activity flag
  and every location count; 20 = 100 - 50 - 30 is reached by an inactive device with zero
  location samples.
\<close>

theorem calculateHealthScore_api_at_least_20:
  "20 \<le> calculateHealthScore_api isActive locationCount
   \<and> calculateHealthScore_api False 0 = 20"
  by (simp add: calculateHealthScore_api_def Let_def)

section \<open>Classifier properties\<close>

lemma isCriticalException_iff:
  "isCriticalException e =
     (str_includes (toLowerCase (ex_main e)) ''server'' \<or>
      str_includes (toLowerCase (ex_main e)) ''critical'' \<or>
      str_includes (toLowerCase (ex_main e)) ''down'' \<or>
      str_includes (toLowerCase (ex_main e)) ''offline'')"
  by (simp add: isCriticalException_def Let_def)

lemma server_down_includes_server: "str_includes ''server down'' ''server''"
  by simp


text \<open>
  C4 as stated fails: the correlator's gate and the analytics severity function are two
  different tables. The text \<open>Download failed\<close> contains \<open>down\<close>, which the gate takes for
  critical, while the analytics function classifies it as info.
\<close>

theorem classifiers_disagree_counterexample:
  "isCriticalException \<lparr>ex_id = ''e1'', ex_createdAt = 0, ex_timestamp = '''',
       ex_details = '''', ex_deviceImei = ''867'', ex_main = ''Download failed''\<rparr>
   \<and> getSeverityFromExceptionType (Some ''Download failed'') = ''info''"
  by (simp add: isCriticalException_def getSeverityFromExceptionType_def toLowerCase_def
        toLowerChar_def Let_def)

text \<open>
  C4 (amended): the analytics severity function classifies a non-empty text by
  case-insensitive substring match with the table critical / server down / offline, then
  warning / degraded / retry, else info, and returns \<open>unknown\<close> for a null or empty text;
  the correlator's gate is the broader test for server, critical, down or offline. Every
  text the analytics function classifies as critical passes the correlator's gate.
\<close>

theorem classifier_tables:
  "getSeverityFromExceptionType None = ''unknown''
   \<and> getSeverityFromExceptionType (Some []) = ''unknown''
   \<and> (t \<noteq> [] \<longrightarrow>
        getSeverityFromExceptionType (Some t) =
          (if str_includes (toLowerCase t) ''critical'' \<or>
              str_includes (toLowerCase t) ''server down'' \<or>
              str_includes (toLowerCase t) ''offline'' then ''critical''
           else if str_includes (toLowerCase t) ''warning'' \<or>
                   str_includes (toLowerCase t) ''retry'' \<or>
                   str_includes (toLowerCase t) ''degraded'' then ''warning''
           else ''info''))
   \<and> (isCriticalException e =
        (str_includes (toLowerCase (ex_main e)) ''server'' \<or>
         str_includes (toLowerCase (ex_main e)) ''critical'' \<or>
         str_includes (toLowerCase (ex_main e)) ''down'' \<or>
         str_includes (toLowerCase (ex_main e)) ''offline''))
   \<and> (getSeverityFromExceptionType (Some (ex_main e)) = ''critical'' \<longrightarrow>
        isCriticalException e)"
proof (intro conjI impI)
  show "getSeverityFromExceptionType None = ''unknown''"
    by (simp add: getSeverityFromExceptionType_def)
  show "getSeverityFromExceptionType (Some []) = ''unknown''"
    by (simp add: getSeverityFromExceptionType_def)
  show "getSeverityFromExceptionType (Some t) =
          (if str_includes (toLowerCase t) ''critical'' \<or>
              str_includes (toLowerCase t) ''server down'' \<or>
              str_includes (toLowerCase t) ''offline'' then ''critical''
           else if str_includes (toLowerCase t) ''warning'' \<or>
                   str_includes (toLowerCase t) ''retry'' \<or>
                   str_includes (toLowerCase t) ''degraded'' then ''warning''
           else ''info'')" if "t \<noteq> []"
    using that by (auto simp add: getSeverityFromExceptionType_def Let_def)
  show "isCriticalException e =
        (str_includes (toLowerCase (ex_main e)) ''server'' \<or>
         str_includes (toLowerCase (ex_main e)) ''critical'' \<or>
         str_includes (toLowerCase (ex_main e)) ''down'' \<or>
         str_includes (toLowerCase (ex_main e)) ''offline'')"
    by (rule isCriticalException_iff)
  show "isCriticalException e"
    if crit: "getSeverityFromExceptionType (Some (ex_main e)) = ''critical''"
  proof -
    let ?s = "toLowerCase (ex_main e)"
    from crit have "str_includes ?s ''critical'' \<or> str_includes ?s ''server down'' \<or>
        str_includes ?s ''offline''"
      by (simp add: getSeverityFromExceptionType_def Let_def split: if_splits)
    moreover have "str_includes ?s ''server''" if "str_includes ?s ''server down''"
      using that server_down_includes_server by (rule str_includes_trans)
    ultimately show ?thesis
      unfolding isCriticalException_iff by blast
  qed
qed

theorem classifier_tables_witness:
  "''Server Down'' \<noteq> []
   \<and> getSeverityFromExceptionType (Some ''Server Down'') = ''critical''
   \<and> isCriticalException \<lparr>ex_id = ''e1'', ex_createdAt = 0, ex_timestamp = '''',
        ex_details = '''', ex_deviceImei = ''867'', ex_main = ''Server Down''\<rparr>"
  using classifier_tables [of "''Server Down''"
      "\<lparr>ex_id = ''e1'', ex_createdAt = 0, ex_timestamp = '''',
        ex_details = '''', ex_deviceImei = ''867'', ex_main = ''Server Down''\<rparr>"]
  by (simp add: toLowerCase_def toLowerChar_def)

section \<open>The registry API service never rejects\<close>

text \<open>
  Each get-operation of the API service catches the error of its request, so its
  promise always resolves; and each sends at most one request.
\<close>

lemma makeRequest_state: "makeRequest f ep s = (r, s') \<Longrightarrow> s' = s\<lparr>requests := requests s @ [ep]\<rparr>"
  by (auto simp add: makeRequest_def Let_def split: fetch_outcome.splits sum.splits if_splits)

lemma getDeviceByImei_resolves: "\<exists>d. fst (getDeviceByImei e imei s) = Inr d"
  by (simp add: getDeviceByImei_def Let_def split: prod.splits sum.splits)

lemma getDeviceLocations_resolves: "\<exists>d. fst (getDeviceLocations e imei limit s) = Inr d"
  by (simp add: getDeviceLocations_def Let_def split: prod.splits sum.splits)

lemma getDeviceActivityStatus_resolves: "\<exists>d. fst (getDeviceActivityStatus e imei s) = Inr d"
  by (simp add: getDeviceActivityStatus_def Let_def split: prod.splits sum.splits)

lemma getAllDevices_resolves: "\<exists>d. fst (getAllDevices e s) = Inr d"
  by (simp add: getAllDevices_def Let_def split: prod.splits sum.splits)

lemma getDeviceByImei_requests:
  "requests (snd (getDeviceByImei e imei s)) =
     requests s @ (if isCacheValid (env_now e) (cache_device s) (''device-'' @ imei) then []
                   else [''/devices/'' @ imei])"
  by (auto simp add: getDeviceByImei_def Let_def split: prod.splits sum.splits dest!: makeRequest_state)

lemma getDeviceLocations_requests:
  "\<exists>rest. requests (snd (getDeviceLocations e imei limit s)) = requests s @ rest \<and> length rest \<le> 1"
  by (auto simp add: getDeviceLocations_def Let_def split: prod.splits sum.splits dest!: makeRequest_state)

lemma getDeviceActivityStatus_requests:
  "\<exists>rest. requests (snd (getDeviceActivityStatus e imei s)) = requests s @ rest \<and> length rest \<le> 1"
  using getDeviceLocations_requests [of e imei 5 s]
  by (auto simp add: getDeviceActivityStatus_def split: prod.splits sum.splits)

lemma getDeviceByImei_result:
  "fst (getDeviceByImei e imei s) =
     Inr (if isCacheValid (env_now e) (cache_device s) (''device-'' @ imei)
          then (case getCache (cache_device s) (''device-'' @ imei) of None \<Rightarrow> None | Some d \<Rightarrow> d)
          else (case fst (makeRequest (fetch_device e) (''/devices/'' @ imei) s) of
                  Inl error \<Rightarrow> None
                | Inr device \<Rightarrow> device))"
  by (auto simp add: getDeviceByImei_def Let_def split: prod.splits sum.splits)

lemma updateDeviceInventory_frame:
  "knownIMEIs (updateDeviceInventory e d s) = knownIMEIs s
   \<and> lastIMEIRefresh (updateDeviceInventory e d s) = lastIMEIRefresh s
   \<and> api_correlation_logs (updateDeviceInventory e d s) = api_correlation_logs s
   \<and> apiService (updateDeviceInventory e d s) = snd (getDeviceActivityStatus e (dev_imei d) (apiService s))"
  by (simp add: updateDeviceInventory_def Let_def split: prod.splits sum.splits option.splits)

lemma refreshKnownIMEIs_frame:
  "apiService (refreshKnownIMEIs e s) = apiService s
   \<and> api_correlation_logs (refreshKnownIMEIs e s) = api_correlation_logs s
   \<and> device_inventory (refreshKnownIMEIs e s) = device_inventory s"
  by (simp add: refreshKnownIMEIs_def Let_def split: select_outcome.splits)

section \<open>The branches of the correlator\<close>

lemma isIMEIKnown_frame:
  "apiService (snd (isIMEIKnown e imei s)) = apiService s
   \<and> api_correlation_logs (snd (isIMEIKnown e imei s)) = api_correlation_logs s
   \<and> device_inventory (snd (isIMEIKnown e imei s)) = device_inventory s
   \<and> fst (isIMEIKnown e imei s) = (imei \<in> knownIMEIs (snd (isIMEIKnown e imei s)))"
  by (simp add: isIMEIKnown_def Let_def refreshKnownIMEIs_frame)

lemma isIMEIKnown_without_refresh:
  assumes "env_now e - lastIMEIRefresh s < IMEI_REFRESH_INTERVAL"
  shows "isIMEIKnown e imei s = (imei \<in> knownIMEIs s, s)"
  using assms by (simp add: isIMEIKnown_def refreshKnownIMEIs_def Let_def)

lemma correlate_new_imei_result:
  assumes run: "correlate_new_imei e ev s = (r, res, notes, s')"
  shows "res = (case fst (getDeviceByImei e (ex_deviceImei ev) (apiService s)) of
                  Inr (Some d) \<Rightarrow> ''confirmed'' | _ \<Rightarrow> ''no_data'')
    \<and> api_status_of r = ''success''
    \<and> api_correlation_logs s' = api_correlation_logs s
    \<and> knownIMEIs s' = (case fst (getDeviceByImei e (ex_deviceImei ev) (apiService s)) of
                  Inr (Some d) \<Rightarrow> insert (ex_deviceImei ev) (knownIMEIs s) | _ \<Rightarrow> knownIMEIs s)
    \<and> (\<exists>rest. requests (apiService s') =
           requests (apiService s) @
           (if isCacheValid (env_now e) (cache_device (apiService s)) (''device-'' @ ex_deviceImei ev)
            then [] else [''/devices/'' @ ex_deviceImei ev]) @ rest
         \<and> length rest \<le> 2)"
proof -
  let ?imei = "ex_deviceImei ev"
  obtain x a1 where g1: "getDeviceByImei e ?imei (apiService s) = (x, a1)"
    by (cases "getDeviceByImei e ?imei (apiService s)")
  obtain dd where x: "x = Inr dd"
    using getDeviceByImei_resolves [of e ?imei "apiService s"] g1 by auto
  obtain y a2 where g2: "getDeviceActivityStatus e ?imei a1 = (y, a2)"
    by (cases "getDeviceActivityStatus e ?imei a1")
  obtain act where y: "y = Inr act"
    using getDeviceActivityStatus_resolves [of e ?imei a1] g2 by auto
  have r1: "requests a1 = requests (apiService s) @
           (if isCacheValid (env_now e) (cache_device (apiService s)) (''device-'' @ ?imei)
            then [] else [''/devices/'' @ ?imei])"
    using getDeviceByImei_requests [of e ?imei "apiService s"] g1 by simp
  obtain rest2 where r2: "requests a2 = requests a1 @ rest2" "length rest2 \<le> 1"
    using getDeviceActivityStatus_requests [of e ?imei a1] g2 by auto
  show ?thesis
  proof (cases dd)
    case None
    with run g1 g2 x y have "r = Some (ApiData None act)" "res = ''no_data''"
        "s' = s\<lparr>apiService := a2\<rparr>"
      by (simp_all add: correlate_new_imei_def Let_def)
    then show ?thesis
      using g1 x None r1 r2 by (simp add: api_status_of_def)
  next
    case (Some d)
    let ?u = "updateDeviceInventory e d (s\<lparr>apiService := a2\<rparr>)"
    from Some run g1 g2 x y have res: "r = Some (ApiData (Some d) act)" "res = ''confirmed''"
        "s' = ?u\<lparr>knownIMEIs := insert ?imei (knownIMEIs ?u)\<rparr>"
      by (simp_all add: correlate_new_imei_def Let_def)
    obtain rest3 where r3: "requests (apiService ?u) = requests a2 @ rest3" "length rest3 \<le> 1"
      using getDeviceActivityStatus_requests [of e "dev_imei d" a2]
      by (auto simp add: updateDeviceInventory_frame)
    have "requests (apiService s') = requests (apiService s) @
           (if isCacheValid (env_now e) (cache_device (apiService s)) (''device-'' @ ?imei)
            then [] else [''/devices/'' @ ?imei]) @ (rest2 @ rest3)"
      using res r1 r2 r3 by simp
    moreover have "length (rest2 @ rest3) \<le> 2"
      using r2 r3 by simp
    ultimately have "\<exists>rest. requests (apiService s') =
           requests (apiService s) @
           (if isCacheValid (env_now e) (cache_device (apiService s)) (''device-'' @ ?imei)
            then [] else [''/devices/'' @ ?imei]) @ rest
         \<and> length rest \<le> 2"
      by blast
    then show ?thesis
      using res g1 x Some by (simp add: api_status_of_def updateDeviceInventory_frame)
  qed
qed

lemma correlate_known_critical_result:
  assumes run: "correlate_known_critical e ev s = (r, res, notes, s')"
  shows "api_status_of r = ''success''
    \<and> api_correlation_logs s' = api_correlation_logs s
    \<and> knownIMEIs s' = knownIMEIs s
    \<and> (\<exists>d act. r = Some (ApiData d act)
          \<and> fst (getDeviceByImei e (ex_deviceImei ev) (apiService s)) = Inr d
          \<and> res = determineCorrelationResult ev d act)"
proof -
  let ?imei = "ex_deviceImei ev"
  obtain x a1 where g1: "getDeviceByImei e ?imei (apiService s) = (x, a1)"
    by (cases "getDeviceByImei e ?imei (apiService s)")
  obtain dd where x: "x = Inr dd"
    using getDeviceByImei_resolves [of e ?imei "apiService s"] g1 by auto
  obtain y a2 where g2: "getDeviceActivityStatus e ?imei a1 = (y, a2)"
    by (cases "getDeviceActivityStatus e ?imei a1")
  obtain act where y: "y = Inr act"
    using getDeviceActivityStatus_resolves [of e ?imei a1] g2 by auto
  from run g1 g2 x y have "r = Some (ApiData dd act)"
      "res = determineCorrelationResult ev dd act" "s' = s\<lparr>apiService := a2\<rparr>"
    by (simp_all add: correlate_known_critical_def Let_def)
  then show ?thesis
    using g1 x by (simp add: api_status_of_def)
qed

section \<open>Evaluating the scenarios\<close>

lemmas scenario_defs = truck_def sample_def registry_up_def registry_down_def api_cold_def
  service_def event_def

lemmas api_defs = getDeviceByImei_def getDeviceLocations_def getDeviceActivityStatus_def
  getAllDevices_def makeRequest_def rethrow_def isCacheValid_def setCache_def getCache_def
  CACHE_DURATION_def isDeviceActive_def number_to_string_def nat_to_string.simps digit_char_def

lemmas correlator_defs = correlateExceptionEventDriven_def isIMEIKnown_def refreshKnownIMEIs_def
  IMEI_REFRESH_INTERVAL_def correlate_new_imei_def correlate_known_critical_def
  logCorrelation_def updateDeviceWithFirebaseData_def updateDeviceInventory_def
  api_status_of_def isCriticalException_def determineCorrelationResult_def
  generateCorrelationNotes_def calculateHealthScore_api_def toLowerCase_def toLowerChar_def
  math_round_div_def

section \<open>The requests of a lookup\<close>

lemma number_to_string_5: "number_to_string 5 = ''5''"
  by (simp add: number_to_string_def nat_to_string.simps digit_char_def)

lemma makeRequest_fst: "fst (makeRequest f ep s) = fst (makeRequest f ep s')"
  by (simp add: makeRequest_def Let_def split: fetch_outcome.splits sum.splits)

lemma getDeviceByImei_keeps_locations:
  "cache_locations (snd (getDeviceByImei e imei s)) = cache_locations s"
  by (auto simp add: getDeviceByImei_def Let_def split: prod.splits sum.splits
        dest!: makeRequest_state)

lemma getDeviceActivityStatus_requests_exact:
  "requests (snd (getDeviceActivityStatus e imei s)) =
     requests s @
     (if isCacheValid (env_now e) (cache_locations s) (''locations-'' @ imei @ ''-5'') then []
      else [''/devices/'' @ imei @ ''/locations?limit=5''])"
  by (auto simp add: getDeviceActivityStatus_def getDeviceLocations_def number_to_string_5 Let_def
        split: prod.splits sum.splits dest!: makeRequest_state)

lemma getDeviceActivityStatus_fresh_after:
  assumes "fst (makeRequest (fetch_locations e) (''/devices/'' @ imei @ ''/locations?limit=5'') s)
             = Inr l"
  shows "isCacheValid (env_now e) (cache_locations (snd (getDeviceActivityStatus e imei s)))
           (''locations-'' @ imei @ ''-5'')"
proof (cases "isCacheValid (env_now e) (cache_locations s) (''locations-'' @ imei @ ''-5'')")
  case True
  then show ?thesis
    by (simp add: getDeviceActivityStatus_def getDeviceLocations_def number_to_string_5 Let_def)
next
  case False
  obtain s' where req: "makeRequest (fetch_locations e)
      (''/devices/'' @ imei @ ''/locations?limit=5'') s = (Inr l, s')"
    using assms
    by (cases "makeRequest (fetch_locations e) (''/devices/'' @ imei @ ''/locations?limit=5'') s")
       auto
  with False show ?thesis
    by (simp add: getDeviceActivityStatus_def getDeviceLocations_def number_to_string_5 Let_def
          isCacheValid_def setCache_def CACHE_DURATION_def)
qed

lemma correlate_new_imei_api:
  assumes run: "correlate_new_imei e ev s = (r, res, msg, s')"
  shows "apiService s' =
     (case fst (getDeviceByImei e (ex_deviceImei ev) (apiService s)) of
        Inr (Some d) \<Rightarrow>
          snd (getDeviceActivityStatus e (dev_imei d)
                 (snd (getDeviceActivityStatus e (ex_deviceImei ev)
                         (snd (getDeviceByImei e (ex_deviceImei ev) (apiService s))))))
      | _ \<Rightarrow> snd (getDeviceActivityStatus e (ex_deviceImei ev)
                      (snd (getDeviceByImei e (ex_deviceImei ev) (apiService s)))))"
proof -
  let ?imei = "ex_deviceImei ev"
  obtain x a1 where g1: "getDeviceByImei e ?imei (apiService s) = (x, a1)"
    by (cases "getDeviceByImei e ?imei (apiService s)")
  obtain dd where x: "x = Inr dd"
    using getDeviceByImei_resolves [of e ?imei "apiService s"] g1 by auto
  obtain y a2 where g2: "getDeviceActivityStatus e ?imei a1 = (y, a2)"
    by (cases "getDeviceActivityStatus e ?imei a1")
  obtain act where y: "y = Inr act"
    using getDeviceActivityStatus_resolves [of e ?imei a1] g2 by auto
  show ?thesis
  proof (cases dd)
    case None
    with run g1 g2 x y have "s' = s\<lparr>apiService := a2\<rparr>"
      by (simp add: correlate_new_imei_def Let_def)
    with g1 g2 x None show ?thesis by simp
  next
    case (Some d)
    with run g1 g2 x y have "s' =
        (updateDeviceInventory e d (s\<lparr>apiService := a2\<rparr>))
          \<lparr>knownIMEIs := insert ?imei
             (knownIMEIs (updateDeviceInventory e d (s\<lparr>apiService := a2\<rparr>)))\<rparr>"
      by (simp add: correlate_new_imei_def Let_def)
    with g1 g2 x Some show ?thesis
      by (simp add: updateDeviceInventory_frame)
  qed
qed

lemma correlate_known_critical_api:
  assumes run: "correlate_known_critical e ev s = (r, res, msg, s')"
  shows "apiService s' =
     snd (getDeviceActivityStatus e (ex_deviceImei ev)
            (snd (getDeviceByImei e (ex_deviceImei ev) (apiService s))))"
proof -
  let ?imei = "ex_deviceImei ev"
  obtain x a1 where g1: "getDeviceByImei e ?imei (apiService s) = (x, a1)"
    by (cases "getDeviceByImei e ?imei (apiService s)")
  obtain dd where x: "x = Inr dd"
    using getDeviceByImei_resolves [of e ?imei "apiService s"] g1 by auto
  obtain y a2 where g2: "getDeviceActivityStatus e ?imei a1 = (y, a2)"
    by (cases "getDeviceActivityStatus e ?imei a1")
  obtain act where y: "y = Inr act"
    using getDeviceActivityStatus_resolves [of e ?imei a1] g2 by auto
  from run g1 g2 x y have "s' = s\<lparr>apiService := a2\<rparr>"
    by (simp add: correlate_known_critical_def Let_def)
  with g1 g2 show ?thesis by simp
qed

lemma gate_noncritical_not_table_critical:
  assumes "\<not> isCriticalException ev"
  shows "getSeverityFromExceptionType (Some (ex_main ev)) \<noteq> ''critical''"
proof
  let ?s = "toLowerCase (ex_main ev)"
  assume "getSeverityFromExceptionType (Some (ex_main ev)) = ''critical''"
  then have "str_includes ?s ''critical'' \<or> str_includes ?s ''server down'' \<or>
      str_includes ?s ''offline''"
    by (simp add: getSeverityFromExceptionType_def Let_def split: if_splits)
  moreover have "str_includes ?s ''server''" if "str_includes ?s ''server down''"
    using that server_down_includes_server by (rule str_includes_trans)
  ultimately have "isCriticalException ev"
    unfolding isCriticalException_iff by blast
  with assms show False by simp
qed

section \<open>The decisions of the correlator for a known device\<close>

text \<open>
  C1 as stated fails, in two ways. The correlator does not decide by the specification's
  table but by its own gate: the category \<open>Download failed\<close> of a known device is info by
  the table, contains \<open>down\<close>, and makes the correlator send the device-detail request and
  the locations request. And where the correlator does skip the call, the log row has the
  status \<open>success\<close>: the source has no status \<open>no_call\<close>, the skipped call is marked by the
  payload \<open>{cached_status: 'known_imei_non_critical'}\<close>, and the status of every payload
  without an \<open>error\<close> field is \<open>success\<close>. Where the event's category is empty, the
  inventory records \<open>Unknown\<close>.
\<close>

theorem known_noncritical_counterexample:
  "ex_deviceImei (event ''e3'' ''Download failed'') \<noteq> []
   \<and> fst (isIMEIKnown registry_up ''867'' (service {''867''}))
   \<and> getSeverityFromExceptionType (Some ''Download failed'') = ''info''
   \<and> requests (apiService (service {''867''})) = []
   \<and> requests (apiService
        (correlateExceptionEventDriven registry_up (event ''e3'' ''Download failed'')
           (service {''867''})))
      = [''/devices/867'', ''/devices/867/locations?limit=5'']
   \<and> \<not> isCriticalException (event ''e1'' ''GPS retry'')
   \<and> map cl_api_status (api_correlation_logs
        (correlateExceptionEventDriven registry_up (event ''e1'' ''GPS retry'') (service {''867''})))
      = [''success'']
   \<and> ''success'' \<noteq> ''no_call''
   \<and> \<not> isCriticalException (event ''e2'' '''')
   \<and> device_inventory
        (correlateExceptionEventDriven registry_up (event ''e2'' '''') (service {''867''}))
      = [FirebaseData \<lparr>fd_imei = ''867'', fd_last_seen_firebase = 10000000,
           fd_is_active_firebase = False, fd_last_exception_type = ''Unknown'',
           fd_updated_at = 10000000\<rparr>]"
  by (simp add: scenario_defs api_defs correlator_defs getSeverityFromExceptionType_def
        or_else_def Let_def)

text \<open>
  C1 (amended): for every exception event whose deviceImei is non-empty and known to the
  correlator (after its hourly refresh), the correlator's own gate decides, not the
  specification's table. When the category contains none of \<open>server\<close>, \<open>critical\<close>, \<open>down\<close>
  and \<open>offline\<close> (case-insensitive), which the table never classifies as critical, the
  correlator leaves the API service untouched (no request, no cache access), sends one log
  row with api_status \<open>success\<close>, the payload \<open>cached_status = known_imei_non_critical\<close> and
  result \<open>confirmed\<close>, and sends one inventory row whose last_exception_type is the event's
  category, or \<open>Unknown\<close> when the category is empty. When the category contains one of
  the four words, also where the table classifies it as non-critical, the correlator looks
  the device up: it sends the device-detail request and then the locations request, each
  unless the cache holds an entry for it younger than five minutes.
\<close>

theorem known_imei_gate_decides_lookup:
  assumes imei: "ex_deviceImei ev \<noteq> []"
    and known: "fst (isIMEIKnown e (ex_deviceImei ev) s)"
  shows "(\<not> isCriticalException ev \<longrightarrow>
      getSeverityFromExceptionType (Some (ex_main ev)) \<noteq> ''critical''
    \<and> apiService (correlateExceptionEventDriven e ev s) = apiService s
    \<and> api_correlation_logs (correlateExceptionEventDriven e ev s) =
        api_correlation_logs s @
        [\<lparr>cl_imei = ex_deviceImei ev,
          cl_correlation_type = ''exception_triggered'',
          cl_firebase_exception_id = Some (ex_id ev),
          cl_api_response = Some (CachedStatus ''known_imei_non_critical''),
          cl_api_status = ''success'',
          cl_correlation_result = ''confirmed'',
          cl_notes = ''Non-critical exception for known IMEI - no API call made (event-driven optimization)'',
          cl_created_at = env_now e\<rparr>]
    \<and> device_inventory (correlateExceptionEventDriven e ev s) =
        device_inventory s @
        [FirebaseData \<lparr>fd_imei = ex_deviceImei ev,
           fd_last_seen_firebase = env_now e,
           fd_is_active_firebase = False,
           fd_last_exception_type = (if ex_main ev = [] then ''Unknown'' else ex_main ev),
           fd_updated_at = env_now e\<rparr>])
   \<and> (isCriticalException ev \<longrightarrow>
      requests (apiService (correlateExceptionEventDriven e ev s)) =
        requests (apiService s) @
        (if isCacheValid (env_now e) (cache_device (apiService s))
              (''device-'' @ ex_deviceImei ev)
         then [] else [''/devices/'' @ ex_deviceImei ev]) @
        (if isCacheValid (env_now e) (cache_locations (apiService s))
              (''locations-'' @ ex_deviceImei ev @ ''-5'')
         then [] else [''/devices/'' @ ex_deviceImei ev @ ''/locations?limit=5'']))"
proof (intro conjI impI)
  let ?imei = "ex_deviceImei ev"
  obtain k s1 where k: "isIMEIKnown e ?imei s = (k, s1)"
    by (cases "isIMEIKnown e ?imei s")
  with known have kn: "k" by simp
  from k isIMEIKnown_frame [of e ?imei s]
  have frame: "apiService s1 = apiService s" "api_correlation_logs s1 = api_correlation_logs s"
      "device_inventory s1 = device_inventory s"
    by simp_all
  {
    assume noncritical: "\<not> isCriticalException ev"
    then show "getSeverityFromExceptionType (Some (ex_main ev)) \<noteq> ''critical''"
      by (rule gate_noncritical_not_table_critical)
    have final: "correlateExceptionEventDriven e ev s =
        updateDeviceWithFirebaseData e ?imei ev
          (logCorrelation e ?imei ''exception_triggered'' (Some (ex_id ev))
             (Some (CachedStatus ''known_imei_non_critical'')) ''success'' ''confirmed''
             ''Non-critical exception for known IMEI - no API call made (event-driven optimization)''
             s1)"
      using imei noncritical k kn
      by (simp add: correlateExceptionEventDriven_def Let_def api_status_of_def)
    show "apiService (correlateExceptionEventDriven e ev s) = apiService s"
      using frame by (simp add: final logCorrelation_def updateDeviceWithFirebaseData_def)
    show "api_correlation_logs (correlateExceptionEventDriven e ev s) =
        api_correlation_logs s @
        [\<lparr>cl_imei = ex_deviceImei ev,
          cl_correlation_type = ''exception_triggered'',
          cl_firebase_exception_id = Some (ex_id ev),
          cl_api_response = Some (CachedStatus ''known_imei_non_critical''),
          cl_api_status = ''success'',
          cl_correlation_result = ''confirmed'',
          cl_notes = ''Non-critical exception for known IMEI - no API call made (event-driven optimization)'',
          cl_created_at = env_now e\<rparr>]"
      using frame by (simp add: final logCorrelation_def updateDeviceWithFirebaseData_def)
    show "device_inventory (correlateExceptionEventDriven e ev s) =
        device_inventory s @
        [FirebaseData \<lparr>fd_imei = ex_deviceImei ev,
           fd_last_seen_firebase = env_now e,
           fd_is_active_firebase = False,
           fd_last_exception_type = (if ex_main ev = [] then ''Unknown'' else ex_main ev),
           fd_updated_at = env_now e\<rparr>]"
      using frame
      by (simp add: final logCorrelation_def updateDeviceWithFirebaseData_def or_else_def)
  }
  {
    assume critical: "isCriticalException ev"
    obtain r res msg s2 where run: "correlate_known_critical e ev s1 = (r, res, msg, s2)"
      by (cases "correlate_known_critical e ev s1") auto
    have "apiService (correlateExceptionEventDriven e ev s) = apiService s2"
      using imei critical k kn run
      by (simp add: correlateExceptionEventDriven_def Let_def logCorrelation_def
            updateDeviceWithFirebaseData_def)
    also have "\<dots> = snd (getDeviceActivityStatus e ?imei
                         (snd (getDeviceByImei e ?imei (apiService s))))"
      using correlate_known_critical_api [OF run] frame by simp
    finally show "requests (apiService (correlateExceptionEventDriven e ev s)) =
        requests (apiService s) @
        (if isCacheValid (env_now e) (cache_device (apiService s)) (''device-'' @ ?imei)
         then [] else [''/devices/'' @ ?imei]) @
        (if isCacheValid (env_now e) (cache_locations (apiService s))
              (''locations-'' @ ?imei @ ''-5'')
         then [] else [''/devices/'' @ ?imei @ ''/locations?limit=5''])"
      by (simp add: getDeviceActivityStatus_requests_exact getDeviceByImei_requests
            getDeviceByImei_keeps_locations)
  }
qed

theorem known_imei_gate_decides_lookup_witness:
  "requests (apiService (correlateExceptionEventDriven registry_up (event ''e1'' ''GPS retry'')
       (service {''867''}))) = []
   \<and> map cl_correlation_result (api_correlation_logs
        (correlateExceptionEventDriven registry_up (event ''e1'' ''GPS retry'') (service {''867''})))
      = [''confirmed'']
   \<and> device_inventory
        (correlateExceptionEventDriven registry_up (event ''e1'' ''GPS retry'') (service {''867''}))
      = [FirebaseData \<lparr>fd_imei = ''867'', fd_last_seen_firebase = 10000000,
           fd_is_active_firebase = False, fd_last_exception_type = ''GPS retry'',
           fd_updated_at = 10000000\<rparr>]
   \<and> requests (apiService (correlateExceptionEventDriven registry_up
        (event ''e3'' ''Download failed'') (service {''867''})))
      = [''/devices/867'', ''/devices/867/locations?limit=5'']"
proof -
  have h1: "ex_deviceImei (event i m) \<noteq> []" for i m
    by (simp add: event_def)
  have h2: "fst (isIMEIKnown registry_up (ex_deviceImei (event i m)) (service {''867''}))" for i m
    by (simp add: scenario_defs isIMEIKnown_def refreshKnownIMEIs_def IMEI_REFRESH_INTERVAL_def
          Let_def)
  have h3: "\<not> isCriticalException (event ''e1'' ''GPS retry'')"
    by (simp add: event_def isCriticalException_def toLowerCase_def toLowerChar_def Let_def)
  have h4: "isCriticalException (event ''e3'' ''Download failed'')"
    by (simp add: event_def isCriticalException_def toLowerCase_def toLowerChar_def Let_def)
  have cold: "\<not> isCacheValid t (cache_device (apiService (service {''867''}))) key"
      "\<not> isCacheValid t (cache_locations (apiService (service {''867''}))) key" for t key
    by (simp_all add: service_def api_cold_def isCacheValid_def)
  have a: "requests (apiService (correlateExceptionEventDriven registry_up (event ''e1'' ''GPS retry'')
       (service {''867''}))) = []
   \<and> map cl_correlation_result (api_correlation_logs
        (correlateExceptionEventDriven registry_up (event ''e1'' ''GPS retry'') (service {''867''})))
      = [''confirmed'']
   \<and> device_inventory
        (correlateExceptionEventDriven registry_up (event ''e1'' ''GPS retry'') (service {''867''}))
      = [FirebaseData \<lparr>fd_imei = ''867'', fd_last_seen_firebase = 10000000,
           fd_is_active_firebase = False, fd_last_exception_type = ''GPS retry'',
           fd_updated_at = 10000000\<rparr>]"
    using known_imei_gate_decides_lookup [OF h1 h2, of "''e1''" "''GPS retry''"] h3
    by (simp add: scenario_defs)
  have b: "requests (apiService (correlateExceptionEventDriven registry_up
        (event ''e3'' ''Download failed'') (service {''867''})))
      = [''/devices/867'', ''/devices/867/locations?limit=5'']"
    using known_imei_gate_decides_lookup [OF h1 h2, of "''e3''" "''Download failed''"] h4 cold
    by (simp add: scenario_defs)
  from a b show ?thesis by simp
qed

section \<open>The decisions of the correlator for an unknown device\<close>

text \<open>
  C2 as stated fails: for an unknown device and nothing cached, the correlator sends two
  requests to the registry, the device detail and the device's recent locations.
\<close>

theorem unknown_imei_requests_counterexample:
  "ex_deviceImei (event ''e1'' ''Server Down'') \<noteq> []
   \<and> \<not> fst (isIMEIKnown registry_up ''867'' (service {}))
   \<and> requests (apiService (service {})) = []
   \<and> requests (apiService
        (correlateExceptionEventDriven registry_up (event ''e1'' ''Server Down'') (service {})))
      = [''/devices/867'', ''/devices/867/locations?limit=5'']"
  by (simp add: scenario_defs api_defs correlator_defs Let_def)

text \<open>
  C2 (amended): for every exception event whose deviceImei is non-empty and not known to
  the correlator, the correlator always looks the device up in the registry through the
  cache, exactly once. It sends, in this order and each unless the cache holds an entry
  for it younger than five minutes: the request for the device detail; the request for
  the recent locations of the event's device; and, when the lookup returned a device
  record, the request for the recent locations of the imei that record carries (the cache
  being as the second request left it). With nothing cached, a registry that answers both
  requests and a record that carries the event's deviceImei, these are exactly two
  requests. The correlator sends one log row; if the lookup returns a device record the
  logged result is \<open>confirmed\<close> and the deviceImei is added to the known set; if the lookup
  returns nothing (the registry answered null, or the request failed) the logged result
  is \<open>no_data\<close> and the deviceImei stays unknown.
\<close>

theorem unknown_imei_looked_up:
  assumes imei: "ex_deviceImei ev \<noteq> []"
    and unknown: "\<not> fst (isIMEIKnown e (ex_deviceImei ev) s)"
  shows "\<exists>entry.
      api_correlation_logs (correlateExceptionEventDriven e ev s) =
        api_correlation_logs s @ [entry]
    \<and> cl_correlation_result entry =
        (case fst (getDeviceByImei e (ex_deviceImei ev) (apiService s)) of
           Inr (Some d) \<Rightarrow> ''confirmed''
         | _ \<Rightarrow> ''no_data'')
    \<and> requests (apiService (correlateExceptionEventDriven e ev s)) =
        requests (apiService s) @
        (if isCacheValid (env_now e) (cache_device (apiService s)) (''device-'' @ ex_deviceImei ev)
         then [] else [''/devices/'' @ ex_deviceImei ev]) @
        (if isCacheValid (env_now e) (cache_locations (apiService s))
              (''locations-'' @ ex_deviceImei ev @ ''-5'')
         then [] else [''/devices/'' @ ex_deviceImei ev @ ''/locations?limit=5'']) @
        (case fst (getDeviceByImei e (ex_deviceImei ev) (apiService s)) of
           Inr (Some d) \<Rightarrow>
             if isCacheValid (env_now e)
                  (cache_locations
                     (snd (getDeviceActivityStatus e (ex_deviceImei ev)
                             (snd (getDeviceByImei e (ex_deviceImei ev) (apiService s))))))
                  (''locations-'' @ dev_imei d @ ''-5'')
             then [] else [''/devices/'' @ dev_imei d @ ''/locations?limit=5'']
         | _ \<Rightarrow> [])
    \<and> ((\<exists>d l. \<not> isCacheValid (env_now e) (cache_device (apiService s))
                    (''device-'' @ ex_deviceImei ev)
             \<and> \<not> isCacheValid (env_now e) (cache_locations (apiService s))
                    (''locations-'' @ ex_deviceImei ev @ ''-5'')
             \<and> fst (makeRequest (fetch_device e) (''/devices/'' @ ex_deviceImei ev)
                      (apiService s)) = Inr (Some d)
             \<and> dev_imei d = ex_deviceImei ev
             \<and> fst (makeRequest (fetch_locations e)
                      (''/devices/'' @ ex_deviceImei ev @ ''/locations?limit=5'')
                      (apiService s)) = Inr l) \<longrightarrow>
          requests (apiService (correlateExceptionEventDriven e ev s)) =
            requests (apiService s) @
            [''/devices/'' @ ex_deviceImei ev,
             ''/devices/'' @ ex_deviceImei ev @ ''/locations?limit=5''])
    \<and> ((\<exists>d. fst (getDeviceByImei e (ex_deviceImei ev) (apiService s)) = Inr (Some d)) \<longrightarrow>
          ex_deviceImei ev \<in> knownIMEIs (correlateExceptionEventDriven e ev s))
    \<and> (fst (getDeviceByImei e (ex_deviceImei ev) (apiService s)) = Inr None \<longrightarrow>
          ex_deviceImei ev \<notin> knownIMEIs (correlateExceptionEventDriven e ev s))
    \<and> ((\<not> isCacheValid (env_now e) (cache_device (apiService s)) (''device-'' @ ex_deviceImei ev)
         \<and> (\<exists>error. fst (makeRequest (fetch_device e) (''/devices/'' @ ex_deviceImei ev)
                           (apiService s)) = Inl error)) \<longrightarrow>
          cl_correlation_result entry = ''no_data'')"
proof -
  let ?imei = "ex_deviceImei ev"
  let ?a = "apiService s"
  let ?a1 = "snd (getDeviceByImei e ?imei ?a)"
  let ?a2 = "snd (getDeviceActivityStatus e ?imei ?a1)"
  let ?lookup = "fst (getDeviceByImei e ?imei ?a)"
  let ?r1 = "if isCacheValid (env_now e) (cache_device ?a) (''device-'' @ ?imei)
         then [] else [''/devices/'' @ ?imei]"
  let ?r2 = "if isCacheValid (env_now e) (cache_locations ?a) (''locations-'' @ ?imei @ ''-5'')
         then [] else [''/devices/'' @ ?imei @ ''/locations?limit=5'']"
  let ?r3 = "case ?lookup of
           Inr (Some d) \<Rightarrow>
             if isCacheValid (env_now e) (cache_locations ?a2) (''locations-'' @ dev_imei d @ ''-5'')
             then [] else [''/devices/'' @ dev_imei d @ ''/locations?limit=5'']
         | _ \<Rightarrow> []"
  obtain k s1 where k: "isIMEIKnown e ?imei s = (k, s1)"
    by (cases "isIMEIKnown e ?imei s")
  with unknown have nk: "\<not> k" by simp
  from k isIMEIKnown_frame [of e ?imei s]
  have frame: "apiService s1 = ?a" "api_correlation_logs s1 = api_correlation_logs s"
      "?imei \<notin> knownIMEIs s1"
    using nk by simp_all
  obtain r res msg s2 where run: "correlate_new_imei e ev s1 = (r, res, msg, s2)"
    by (cases "correlate_new_imei e ev s1") auto
  note facts = correlate_new_imei_result [OF run, unfolded frame]
  let ?entry = "\<lparr>cl_imei = ?imei, cl_correlation_type = ''exception_triggered'',
      cl_firebase_exception_id = Some (ex_id ev), cl_api_response = r,
      cl_api_status = api_status_of r, cl_correlation_result = res, cl_notes = msg,
      cl_created_at = env_now e\<rparr>"
  have final: "correlateExceptionEventDriven e ev s =
      updateDeviceWithFirebaseData e ?imei ev
        (logCorrelation e ?imei ''exception_triggered'' (Some (ex_id ev)) r (api_status_of r)
           res msg s2)"
    using imei k nk run by (simp add: correlateExceptionEventDriven_def Let_def)
  have logs: "api_correlation_logs (correlateExceptionEventDriven e ev s) =
      api_correlation_logs s @ [?entry]"
    using facts by (simp add: final updateDeviceWithFirebaseData_def logCorrelation_def)
  have api: "apiService (correlateExceptionEventDriven e ev s) = apiService s2"
    by (simp add: final updateDeviceWithFirebaseData_def logCorrelation_def)
  have known: "knownIMEIs (correlateExceptionEventDriven e ev s) = knownIMEIs s2"
    by (simp add: final updateDeviceWithFirebaseData_def logCorrelation_def)
  have res: "res = (case ?lookup of Inr (Some d) \<Rightarrow> ''confirmed'' | _ \<Rightarrow> ''no_data'')"
    using facts by simp
  have k2: "knownIMEIs s2 = (case ?lookup of
                  Inr (Some d) \<Rightarrow> insert ?imei (knownIMEIs s1) | _ \<Rightarrow> knownIMEIs s1)"
    using facts by simp
  have a12: "requests ?a2 = requests ?a @ ?r1 @ ?r2"
    by (simp add: getDeviceActivityStatus_requests_exact getDeviceByImei_requests
          getDeviceByImei_keeps_locations)
  have reqs: "requests (apiService s2) = requests ?a @ ?r1 @ ?r2 @ ?r3"
  proof -
    obtain dd where dd: "?lookup = Inr dd"
      using getDeviceByImei_resolves [of e ?imei ?a] by blast
    show ?thesis
    proof (cases dd)
      case None
      with dd correlate_new_imei_api [OF run, unfolded frame] a12 show ?thesis by simp
    next
      case (Some d)
      with dd correlate_new_imei_api [OF run, unfolded frame]
      have "apiService s2 = snd (getDeviceActivityStatus e (dev_imei d) ?a2)" by simp
      with dd Some a12 show ?thesis
        by (simp add: getDeviceActivityStatus_requests_exact)
    qed
  qed
  have two: "requests (apiService s2) =
      requests ?a @ [''/devices/'' @ ?imei, ''/devices/'' @ ?imei @ ''/locations?limit=5'']"
    if cold1: "\<not> isCacheValid (env_now e) (cache_device ?a) (''device-'' @ ?imei)"
      and cold2: "\<not> isCacheValid (env_now e) (cache_locations ?a) (''locations-'' @ ?imei @ ''-5'')"
      and found: "fst (makeRequest (fetch_device e) (''/devices/'' @ ?imei) ?a) = Inr (Some d)"
      and same: "dev_imei d = ?imei"
      and answered: "fst (makeRequest (fetch_locations e)
                      (''/devices/'' @ ?imei @ ''/locations?limit=5'') ?a) = Inr l"
    for d l
  proof -
    have lookup: "?lookup = Inr (Some d)"
      using cold1 found by (simp add: getDeviceByImei_result)
    have "fst (makeRequest (fetch_locations e)
                      (''/devices/'' @ ?imei @ ''/locations?limit=5'') ?a1) = Inr l"
      using answered makeRequest_fst [of "fetch_locations e" _ ?a1 ?a] by simp
    then have "isCacheValid (env_now e) (cache_locations ?a2) (''locations-'' @ ?imei @ ''-5'')"
      by (rule getDeviceActivityStatus_fresh_after)
    with reqs lookup same cold1 cold2 show ?thesis by simp
  qed
  have failed: "res = ''no_data''"
    if "\<not> isCacheValid (env_now e) (cache_device ?a) (''device-'' @ ?imei)"
      and "\<exists>error. fst (makeRequest (fetch_device e) (''/devices/'' @ ?imei) ?a) = Inl error"
    using that res by (auto simp add: getDeviceByImei_result)
  show ?thesis
  proof (intro exI [of _ ?entry] conjI impI)
    show "api_correlation_logs (correlateExceptionEventDriven e ev s) =
        api_correlation_logs s @ [?entry]"
      by (rule logs)
    show "cl_correlation_result ?entry =
        (case ?lookup of Inr (Some d) \<Rightarrow> ''confirmed'' | _ \<Rightarrow> ''no_data'')"
      using res by simp
    show "requests (apiService (correlateExceptionEventDriven e ev s)) =
        requests ?a @ ?r1 @ ?r2 @ ?r3"
      using reqs api by simp
    show "requests (apiService (correlateExceptionEventDriven e ev s)) =
            requests ?a @
            [''/devices/'' @ ?imei, ''/devices/'' @ ?imei @ ''/locations?limit=5'']"
      if "\<exists>d l. \<not> isCacheValid (env_now e) (cache_device ?a) (''device-'' @ ?imei)
             \<and> \<not> isCacheValid (env_now e) (cache_locations ?a) (''locations-'' @ ?imei @ ''-5'')
             \<and> fst (makeRequest (fetch_device e) (''/devices/'' @ ?imei) ?a) = Inr (Some d)
             \<and> dev_imei d = ?imei
             \<and> fst (makeRequest (fetch_locations e)
                      (''/devices/'' @ ?imei @ ''/locations?limit=5'') ?a) = Inr l"
      using that two api by auto
    show "?imei \<in> knownIMEIs (correlateExceptionEventDriven e ev s)"
      if "\<exists>d. ?lookup = Inr (Some d)"
      using that k2 known by auto
    show "?imei \<notin> knownIMEIs (correlateExceptionEventDriven e ev s)"
      if "?lookup = Inr None"
      using that k2 known frame by simp
    show "cl_correlation_result ?entry = ''no_data''"
      if "\<not> isCacheValid (env_now e) (cache_device ?a) (''device-'' @ ?imei)
         \<and> (\<exists>error. fst (makeRequest (fetch_device e) (''/devices/'' @ ?imei) ?a) = Inl error)"
      using that failed by simp
  qed
qed

theorem unknown_imei_looked_up_witness:
  "map cl_correlation_result (api_correlation_logs
       (correlateExceptionEventDriven registry_up (event ''e1'' ''Server Down'') (service {})))
     = [''confirmed'']
   \<and> ''867'' \<in> knownIMEIs
       (correlateExceptionEventDriven registry_up (event ''e1'' ''Server Down'') (service {}))
   \<and> requests (apiService
       (correlateExceptionEventDriven registry_up (event ''e1'' ''Server Down'') (service {})))
     = [''/devices/867'', ''/devices/867/locations?limit=5'']
   \<and> map cl_correlation_result (api_correlation_logs
       (correlateExceptionEventDriven registry_down (event ''e1'' ''Server Down'') (service {})))
     = [''no_data'']
   \<and> ''867'' \<notin> knownIMEIs
       (correlateExceptionEventDriven registry_down (event ''e1'' ''Server Down'') (service {}))"
proof -
  have h1: "ex_deviceImei (event ''e1'' ''Server Down'') \<noteq> []"
    by (simp add: event_def)
  have h2: "\<not> fst (isIMEIKnown registry_up (ex_deviceImei (event ''e1'' ''Server Down''))
               (service {}))"
    by (simp add: scenario_defs isIMEIKnown_def refreshKnownIMEIs_def IMEI_REFRESH_INTERVAL_def
          Let_def)
  have h3: "\<not> fst (isIMEIKnown registry_down (ex_deviceImei (event ''e1'' ''Server Down''))
               (service {}))"
    by (simp add: scenario_defs isIMEIKnown_def refreshKnownIMEIs_def IMEI_REFRESH_INTERVAL_def
          Let_def)
  have up: "fst (getDeviceByImei registry_up ''867'' api_cold) = Inr (Some truck)"
    by (simp add: scenario_defs api_defs Let_def)
  have down: "fst (getDeviceByImei registry_down ''867'' api_cold) = Inr None"
    by (simp add: scenario_defs api_defs Let_def)
  have svc: "apiService (service {}) = api_cold" "api_correlation_logs (service {}) = []"
    by (simp_all add: service_def)
  have ev: "ex_deviceImei (event ''e1'' ''Server Down'') = ''867''"
    by (simp add: event_def)
  have cold: "\<not> isCacheValid t (cache_device api_cold) key"
      "\<not> isCacheValid t (cache_locations api_cold) key" for t key
    by (simp_all add: api_cold_def isCacheValid_def)
  have answers: "fst (makeRequest (fetch_device registry_up) ''/devices/867'' api_cold)
        = Inr (Some truck)"
      "dev_imei truck = ''867''"
      "fst (makeRequest (fetch_locations registry_up) ''/devices/867/locations?limit=5'' api_cold)
        = Inr [sample]"
      "requests api_cold = []"
    by (simp_all add: scenario_defs makeRequest_def Let_def)
  from unknown_imei_looked_up [OF h1 h2]
  have a: "map cl_correlation_result (api_correlation_logs
       (correlateExceptionEventDriven registry_up (event ''e1'' ''Server Down'') (service {})))
     = [''confirmed'']
   \<and> ''867'' \<in> knownIMEIs
       (correlateExceptionEventDriven registry_up (event ''e1'' ''Server Down'') (service {}))
   \<and> requests (apiService
       (correlateExceptionEventDriven registry_up (event ''e1'' ''Server Down'') (service {})))
     = [''/devices/867'', ''/devices/867/locations?limit=5'']"
    using answers cold by (auto simp add: svc ev up)
  from unknown_imei_looked_up [OF h1 h3]
  have b: "map cl_correlation_result (api_correlation_logs
       (correlateExceptionEventDriven registry_down (event ''e1'' ''Server Down'') (service {})))
     = [''no_data'']
   \<and> ''867'' \<notin> knownIMEIs
       (correlateExceptionEventDriven registry_down (event ''e1'' ''Server Down'') (service {}))"
    by (auto simp add: svc ev down)
  from a b show ?thesis by simp
qed

text \<open>
  The third request at work: the registry answers the lookup of the unknown device 867
  with a record that carries the imei 999, and \<open>updateDeviceInventory\<close> asks for the
  locations of 999.
\<close>

lemma unknown_imei_third_request:
  "requests (apiService
     (correlateExceptionEventDriven
        (registry_up\<lparr>fetch_device := (\<lambda>endpoint.
           FetchResponse True 200 ''OK'' (Inr (Some (truck\<lparr>dev_imei := ''999''\<rparr>))))\<rparr>)
        (event ''e1'' ''Server Down'') (service {})))
     = [''/devices/867'', ''/devices/867/locations?limit=5'', ''/devices/999/locations?limit=5'']"
  by (simp add: scenario_defs api_defs correlator_defs Let_def)

section \<open>The conflict rule for a known device\<close>






section \<open>The cache of the API service\<close>

lemma fresh_entry_served_without_request:
  assumes "isCacheValid (env_now e) (cache_device s) (''device-'' @ imei)"
  shows "getDeviceByImei e imei s =
           (Inr (case getCache (cache_device s) (''device-'' @ imei) of
                   None \<Rightarrow> None | Some d \<Rightarrow> d), s)"
  using assms by (simp add: getDeviceByImei_def Let_def)

lemma getAllDevices_stale_fallback:
  assumes "\<not> isCacheValid (env_now e) (cache_devices s) ''all-devices''"
    and "fst (makeRequest (fetch_devices e) ''/devices'' s) = Inl error"
  shows "fst (getAllDevices e s) =
           Inr (case getCache (cache_devices s) ''all-devices'' of
                  None \<Rightarrow> [] | Some cached \<Rightarrow> cached)"
proof -
  obtain s' where "makeRequest (fetch_devices e) ''/devices'' s = (Inl error, s')"
    using assms(2) by (cases "makeRequest (fetch_devices e) ''/devices'' s") auto
  moreover from this have "cache_devices s' = cache_devices s"
    by (auto dest!: makeRequest_state)
  ultimately show ?thesis
    using assms(1) by (simp add: getAllDevices_def Let_def)
qed

lemma getDeviceByImei_failure_ignores_cache:
  assumes "\<not> isCacheValid (env_now e) (cache_device s) (''device-'' @ imei)"
    and "fst (makeRequest (fetch_device e) (''/devices/'' @ imei) s) = Inl error"
  shows "fst (getDeviceByImei e imei s) = Inr None"
  using assms by (simp add: getDeviceByImei_result)

text \<open>
  C7 fails on the code for two of the three get-operations. With entries cached more
  than five minutes ago and a registry whose requests time out, \<open>getAllDevices\<close> returns
  the stale list, but \<open>getDeviceByImei\<close> returns null and \<open>getDeviceLocations\<close> returns the
  empty list although each has a cached value. None of the three throws.
\<close>

theorem stale_entry_not_served_on_failure:
  "getCache (cache_device api_stale) ''device-867'' = Some (Some truck)
   \<and> \<not> isCacheValid (env_now registry_down) (cache_device api_stale) ''device-867''
   \<and> fst (getDeviceByImei registry_down ''867'' api_stale) = Inr None
   \<and> getCache (cache_locations api_stale) ''locations-867-5'' = Some [sample]
   \<and> \<not> isCacheValid (env_now registry_down) (cache_locations api_stale) ''locations-867-5''
   \<and> fst (getDeviceLocations registry_down ''867'' 5 api_stale) = Inr []
   \<and> getCache (cache_devices api_stale) ''all-devices'' = Some [truck]
   \<and> \<not> isCacheValid (env_now registry_down) (cache_devices api_stale) ''all-devices''
   \<and> fst (getAllDevices registry_down api_stale) = Inr [truck]"
  by (simp add: scenario_defs api_stale_def api_defs Let_def)

section \<open>Registry failures in the correlator\<close>

text \<open>
  The API service turns a failed request into a null device, so the \<open>catch\<close> clauses of
  the correlator that would log the status \<open>error\<close> are never entered: every log row of
  \<open>correlateExceptionEventDriven\<close> has the status \<open>success\<close>.
\<close>

lemma correlation_status_always_success:
  assumes imei: "ex_deviceImei ev \<noteq> []"
  shows "\<exists>entry. api_correlation_logs (correlateExceptionEventDriven e ev s) =
           api_correlation_logs s @ [entry] \<and> cl_api_status entry = ''success''"
proof -
  let ?imei = "ex_deviceImei ev"
  obtain k s1 where k: "isIMEIKnown e ?imei s = (k, s1)"
    by (cases "isIMEIKnown e ?imei s")
  from k isIMEIKnown_frame [of e ?imei s]
  have frame: "api_correlation_logs s1 = api_correlation_logs s"
    by simp
  obtain r res msg s2 where run:
    "(if \<not> k then correlate_new_imei e ev s1
      else if isCriticalException ev then correlate_known_critical e ev s1
      else (Some (CachedStatus ''known_imei_non_critical''), ''confirmed'',
            ''Non-critical exception for known IMEI - no API call made (event-driven optimization)'',
            s1)) = (r, res, msg, s2)"
    by (metis prod_cases4)
  have "api_status_of r = ''success'' \<and> api_correlation_logs s2 = api_correlation_logs s1"
  proof (cases "\<not> k")
    case True
    with run have "correlate_new_imei e ev s1 = (r, res, msg, s2)" by simp
    from correlate_new_imei_result [OF this] show ?thesis by simp
  next
    case False
    show ?thesis
    proof (cases "isCriticalException ev")
      case True
      with False run have "correlate_known_critical e ev s1 = (r, res, msg, s2)" by simp
      from correlate_known_critical_result [OF this] show ?thesis by simp
    next
      case nc: False
      with False run show ?thesis by (auto simp add: api_status_of_def)
    qed
  qed
  then show ?thesis
    using imei k run frame
    by (simp add: correlateExceptionEventDriven_def Let_def updateDeviceWithFirebaseData_def
          logCorrelation_def)
qed

text \<open>
  C8 fails on the code: when every request to the registry times out while an event of
  an unknown device is correlated, one log row is written and nothing is thrown, its
  result is \<open>no_data\<close>, but its status is \<open>success\<close> and its notes do not carry the error
  message; likewise for a critical event of a known device.
\<close>

theorem registry_timeout_logged_as_success:
  "api_correlation_logs
     (correlateExceptionEventDriven registry_down (event ''e1'' ''Server Down'') (service {})) =
     [\<lparr>cl_imei = ''867'',
       cl_correlation_type = ''exception_triggered'',
       cl_firebase_exception_id = Some ''e1'',
       cl_api_response = Some (ApiData None
          \<lparr>as_isActive = False, as_lastActivity = None, as_locationCount = 0\<rparr>),
       cl_api_status = ''success'',
       cl_correlation_result = ''no_data'',
       cl_notes = ''New IMEI discovered - device not found in API'',
       cl_created_at = 10000000\<rparr>]
   \<and> api_correlation_logs
     (correlateExceptionEventDriven registry_down (event ''e1'' ''Server Down'') (service {''867''})) =
     [\<lparr>cl_imei = ''867'',
       cl_correlation_type = ''exception_triggered'',
       cl_firebase_exception_id = Some ''e1'',
       cl_api_response = Some (ApiData None
          \<lparr>as_isActive = False, as_lastActivity = None, as_locationCount = 0\<rparr>),
       cl_api_status = ''success'',
       cl_correlation_result = ''no_data'',
       cl_notes = ''Firebase Exception: Server Down | API: Device not found or API unavailable'',
       cl_created_at = 10000000\<rparr>]"
  by (simp add: scenario_defs api_defs correlator_defs or_else_def Let_def)

section \<open>Re-delivered snapshots\<close>

lemma started_whenever_delivered:
  assumes "doc \<in> set snapshot" and "\<not> doc_hasPendingWrites doc" and "\<not> doc_fromCache doc"
  shows "logData doc \<in> set (correlations_started (onExceptionSnapshot snapshot))"
  using assms by (simp add: onExceptionSnapshot_def Let_def)

text \<open>
  A started correlation of an event with a deviceImei writes a log row for that event
  whatever state it finds, so a second row for a re-delivered event does not depend on
  what other correlations did in between.
\<close>

lemma correlation_always_logs_its_event:
  assumes imei: "ex_deviceImei ev \<noteq> []"
  shows "\<exists>entry. api_correlation_logs (correlateExceptionEventDriven e ev s) =
           api_correlation_logs s @ [entry]
         \<and> cl_firebase_exception_id entry = Some (ex_id ev)"
proof -
  let ?imei = "ex_deviceImei ev"
  obtain k s1 where k: "isIMEIKnown e ?imei s = (k, s1)"
    by (cases "isIMEIKnown e ?imei s")
  from k isIMEIKnown_frame [of e ?imei s]
  have frame: "api_correlation_logs s1 = api_correlation_logs s"
    by simp
  obtain r res msg s2 where run:
    "(if \<not> k then correlate_new_imei e ev s1
      else if isCriticalException ev then correlate_known_critical e ev s1
      else (Some (CachedStatus ''known_imei_non_critical''), ''confirmed'',
            ''Non-critical exception for known IMEI - no API call made (event-driven optimization)'',
            s1)) = (r, res, msg, s2)"
    by (metis prod_cases4)
  have "api_correlation_logs s2 = api_correlation_logs s1"
  proof (cases "\<not> k")
    case True
    with run have "correlate_new_imei e ev s1 = (r, res, msg, s2)" by simp
    from correlate_new_imei_result [OF this] show ?thesis by simp
  next
    case False
    show ?thesis
    proof (cases "isCriticalException ev")
      case True
      with False run have "correlate_known_critical e ev s1 = (r, res, msg, s2)" by simp
      from correlate_known_critical_result [OF this] show ?thesis by simp
    next
      case nc: False
      with False run show ?thesis by auto
    qed
  qed
  then show ?thesis
    using imei k run frame
    by (simp add: correlateExceptionEventDriven_def Let_def updateDeviceWithFirebaseData_def
          logCorrelation_def)
qed

text \<open>
  C9 fails on the code: the listener tests the metadata of each document, not whether
  its id was seen before. When a second snapshot arrives that holds a new event \<open>e2\<close> and
  the event \<open>e1\<close> of the first snapshot, the listener starts a correlation for \<open>e1\<close> again.
  With the correlations completing in the order they were started, a second log row for
  \<open>e1\<close> is written, and, the registry being unreachable both times, its two requests are
  sent again.
\<close>

theorem redelivered_snapshot_correlated_again:
  "correlations_started (onExceptionSnapshot [document ''e1'' ''Server Down''])
     = [event ''e1'' ''Server Down'']
   \<and> correlations_started
       (onExceptionSnapshot [document ''e2'' ''GPS retry'', document ''e1'' ''Server Down''])
     = [event ''e2'' ''GPS retry'', event ''e1'' ''Server Down'']
   \<and> map cl_firebase_exception_id (api_correlation_logs
       (correlateExceptionEventDriven registry_down (event ''e1'' ''Server Down'')
         (correlateExceptionEventDriven registry_down (event ''e2'' ''GPS retry'')
           (correlateExceptionEventDriven registry_down (event ''e1'' ''Server Down'')
              (service {''867''})))))
     = [Some ''e1'', Some ''e2'', Some ''e1'']
   \<and> requests (apiService
       (correlateExceptionEventDriven registry_down (event ''e1'' ''Server Down'')
          (service {''867''})))
     = [''/devices/867'', ''/devices/867/locations?limit=5'']
   \<and> requests (apiService
       (correlateExceptionEventDriven registry_down (event ''e1'' ''Server Down'')
         (correlateExceptionEventDriven registry_down (event ''e2'' ''GPS retry'')
           (correlateExceptionEventDriven registry_down (event ''e1'' ''Server Down'')
              (service {''867''})))))
     = [''/devices/867'', ''/devices/867/locations?limit=5'',
        ''/devices/867'', ''/devices/867/locations?limit=5'']"
proof (intro conjI)
  show "correlations_started (onExceptionSnapshot [document ''e1'' ''Server Down''])
     = [event ''e1'' ''Server Down'']"
    by (simp add: onExceptionSnapshot_def logData_def document_def event_def)
  show "correlations_started
       (onExceptionSnapshot [document ''e2'' ''GPS retry'', document ''e1'' ''Server Down''])
     = [event ''e2'' ''GPS retry'', event ''e1'' ''Server Down'']"
    by (simp add: onExceptionSnapshot_def logData_def document_def event_def)
  show "map cl_firebase_exception_id (api_correlation_logs
       (correlateExceptionEventDriven registry_down (event ''e1'' ''Server Down'')
         (correlateExceptionEventDriven registry_down (event ''e2'' ''GPS retry'')
           (correlateExceptionEventDriven registry_down (event ''e1'' ''Server Down'')
              (service {''867''})))))
     = [Some ''e1'', Some ''e2'', Some ''e1'']"
    by (simp add: scenario_defs api_defs correlator_defs or_else_def Let_def)
  show "requests (apiService
       (correlateExceptionEventDriven registry_down (event ''e1'' ''Server Down'')
          (service {''867''})))
     = [''/devices/867'', ''/devices/867/locations?limit=5'']"
    by (simp add: scenario_defs api_defs correlator_defs or_else_def Let_def)
  show "requests (apiService
       (correlateExceptionEventDriven registry_down (event ''e1'' ''Server Down'')
         (correlateExceptionEventDriven registry_down (event ''e2'' ''GPS retry'')
           (correlateExceptionEventDriven registry_down (event ''e1'' ''Server Down'')
              (service {''867''})))))
     = [''/devices/867'', ''/devices/867/locations?limit=5'',
        ''/devices/867'', ''/devices/867/locations?limit=5'']"
    by (simp add: scenario_defs api_defs correlator_defs or_else_def Let_def)
qed

section \<open>Health scores sent to the inventory\<close>

text \<open>
  The registry row of \<open>updateDeviceInventory\<close> carries the API-activity score of the
  activity it has just read, so the score it sends lies between 20 and 100.
\<close>

lemma updateDeviceInventory_rows:
  "device_inventory (updateDeviceInventory e d s) = device_inventory s
   \<or> (\<exists>row. device_inventory (updateDeviceInventory e d s) = device_inventory s @ [DeviceData row]
        \<and> 20 \<le> dd_health_score row \<and> dd_health_score row \<le> 100)"
proof -
  have range: "20 \<le> calculateHealthScore_api a n \<and> calculateHealthScore_api a n \<le> 100" for a n
    by (simp add: calculateHealthScore_api_def Let_def)
  show ?thesis
    using range
    by (auto simp add: updateDeviceInventory_def Let_def
          split: prod.splits sum.splits option.splits)
qed

end
